theory Spec2Isabelle
  imports Complex_Main "HOL-Library.Word"
begin

section \<open>JavaScript values\<close>

text \<open>
  A JavaScript string is a sequence of UTF-16 code units. The literals of the source are
  ASCII; \<open>js\<close> turns an ASCII literal into its code units.
\<close>

type_synonym jsstring = "16 word list"

definition js :: "string \<Rightarrow> jsstring" where
  "js s = map of_char s"

text \<open>
  A number that \<open>JSON.parse\<close> can return: a finite double (a rational) or an infinity
  (from a literal such as \<open>1e999\<close>). The module only tests numbers for truthiness and
  passes them on.
\<close>

datatype number = Finite rat | PosInfinity | NegInfinity

text \<open>
  The values that flow through the module: what \<open>JSON.parse\<close> returns, and \<open>undefined\<close>.
  An object is the list of its own properties, looked up by the first entry of a key.
\<close>

datatype json =
    JUndefined
  | JNull
  | JBool bool
  | JNum number
  | JStr jsstring
  | JArr "json list"
  | JObj "(jsstring \<times> json) list"

datatype error = TypeError | SyntaxError

text \<open>\<open>v === undefined || v === null\<close>\<close>

fun js_nullish :: "json \<Rightarrow> bool" where
  "js_nullish JUndefined = True"
| "js_nullish JNull = True"
| "js_nullish v = False"

text \<open>
  The property read \<open>v.k\<close> on a value that is not null or undefined, for the property
  names this module reads (none of them is a property of a prototype, an index or
  \<open>length\<close>): an own property of an object, \<open>undefined\<close> otherwise. On null and
  undefined \<open>v.k\<close> throws a TypeError, which every caller below guards with
  \<open>js_nullish\<close>; the optional read \<open>v?.k\<close> is \<open>undefined\<close> there, which is the value
  of \<open>js_get\<close>.
\<close>

fun js_get :: "json \<Rightarrow> jsstring \<Rightarrow> json" where
  "js_get (JObj kvs) k = (case map_of kvs k of None \<Rightarrow> JUndefined | Some v \<Rightarrow> v)"
| "js_get v k = JUndefined"

text \<open>\<open>a ?? b\<close>\<close>

definition js_coalesce :: "json \<Rightarrow> json \<Rightarrow> json" where
  "js_coalesce a b = (if js_nullish a then b else a)"

text \<open>The truthiness test of \<open>if (v)\<close> and \<open>!v\<close>.\<close>

fun js_truthy :: "json \<Rightarrow> bool" where
  "js_truthy JUndefined = False"
| "js_truthy JNull = False"
| "js_truthy (JBool b) = b"
| "js_truthy (JNum n) = (n \<noteq> Finite 0)"
| "js_truthy (JStr s) = (s \<noteq> [])"
| "js_truthy (JArr xs) = True"
| "js_truthy (JObj kvs) = True"

text \<open>
  The code units that \<open>String.prototype.trim\<close> strips: the WhiteSpace and
  LineTerminator code points of ECMAScript, all of them single code units.
\<close>

definition js_whitespace :: "16 word \<Rightarrow> bool" where
  "js_whitespace c \<longleftrightarrow>
     c \<in> {0x09, 0x0A, 0x0B, 0x0C, 0x0D, 0x20, 0xA0, 0x1680,
          0x2000, 0x2001, 0x2002, 0x2003, 0x2004, 0x2005, 0x2006, 0x2007, 0x2008, 0x2009,
          0x200A, 0x2028, 0x2029, 0x202F, 0x205F, 0x3000, 0xFEFF}"

definition js_trim :: "jsstring \<Rightarrow> jsstring" where
  "js_trim s = rev (dropWhile js_whitespace (rev (dropWhile js_whitespace s)))"

text \<open>
  The built-ins of the platform that the module calls and whose result depends on more
  than the model holds: \<open>JSON.parse\<close> (which throws a SyntaxError on a malformed text)
  and the string conversion of a template literal (which can throw on an object).
\<close>

record builtins =
  JSON_parse :: "jsstring \<Rightarrow> error + json"
  ToString :: "json \<Rightarrow> error + jsstring"

section \<open>utils/index.ts\<close>

definition LS_COMMUNICATION_ID_KEY :: jsstring where
  "LS_COMMUNICATION_ID_KEY = js ''communicationId''"

definition UI_ERROR :: jsstring where "UI_ERROR = js ''UI_ERROR''"
definition CLOSE_CONNECTION :: jsstring where "CLOSE_CONNECTION = js ''CLOSE_CONNECTION''"
definition INVALID_COMMUNICATION_ID :: jsstring where
  "INVALID_COMMUNICATION_ID = js ''INVALID_COMMUNICATION_ID''"
definition ERROR :: jsstring where "ERROR = js ''ERROR''"
definition IS_BOT_CONNECTED :: jsstring where "IS_BOT_CONNECTED = js ''IS_BOT_CONNECTED''"
definition NEW_CONTROL_PANEL_DETECTED :: jsstring where
  "NEW_CONTROL_PANEL_DETECTED = js ''NEW_CONTROL_PANEL_DETECTED''"
definition SYSTEM_CONFIG :: jsstring where "SYSTEM_CONFIG = js ''SYSTEM_CONFIG''"
definition PING_STATE :: jsstring where "PING_STATE = js ''PING_STATE''"
definition USER_INPUT :: jsstring where "USER_INPUT = js ''USER_INPUT''"

text \<open>The values of the object \<open>socketReceiveMsgTypes\<close>, in the order of the source.\<close>

definition socketReceiveMsgTypes :: "jsstring list" where
  "socketReceiveMsgTypes =
     [UI_ERROR, CLOSE_CONNECTION, INVALID_COMMUNICATION_ID, ERROR, IS_BOT_CONNECTED,
      NEW_CONTROL_PANEL_DETECTED, SYSTEM_CONFIG, PING_STATE, USER_INPUT]"

definition UPDATE_CONFIG :: jsstring where "UPDATE_CONFIG = js ''UPDATE_CONFIG''"
definition PING :: jsstring where "PING = js ''PING''"
definition SEND_TEXT :: jsstring where "SEND_TEXT = js ''SEND_TEXT''"
definition SEND_AUDIO :: jsstring where "SEND_AUDIO = js ''SEND_AUDIO''"

definition socketSendMsgTypes :: "jsstring list" where
  "socketSendMsgTypes = [UPDATE_CONFIG, PING, SEND_TEXT, SEND_AUDIO]"

text \<open>The envelope that \<open>messageToJson\<close> returns from its \<open>catch\<close> block.\<close>

definition parseErrorEnvelope :: json where
  "parseErrorEnvelope =
     JObj [(js ''data'', JObj [(js ''message'', JStr (js ''Error parsing json!''))]),
           (js ''type'', JStr UI_ERROR)]"

text \<open>
  \<open>try { return JSON.parse(data) } catch { return {...} }\<close>: the \<open>catch\<close> takes every
  exception of \<open>JSON.parse\<close>.
\<close>

definition messageToJson :: "builtins \<Rightarrow> jsstring \<Rightarrow> error + json" where
  "messageToJson B raw =
     (case JSON_parse B raw of
        Inr v \<Rightarrow> Inr v
      | Inl e \<Rightarrow> Inr parseErrorEnvelope)"

section \<open>The Redux store\<close>

text \<open>
  The client-side configuration. The wire values are stored as they arrive, so every
  field holds a JavaScript value. \<open>customPromptSuffix\<close> is the optional field that the
  control panel component reads and writes.
\<close>

record SystemConfig =
  skin :: json
  audioEnabled :: json
  textEnabled :: json
  llmModel :: json
  voiceLanguageCode :: json
  voiceGender :: json
  proactiveModeEnabled :: json
  subtitlesEnabled :: json
  customPromptSuffix :: json

text \<open>
  Modelled from the spec: the enum \<open>ConnectionStatus\<close> of the communication slice, which
  is not among the source files; the spec names its states as connected, connecting and
  not-connected, and the actions use exactly these three members.
\<close>

datatype ConnectionStatus = CONNECTED | CONNECTING | NOT_CONNECTED

text \<open>
  The two members of the enum \<open>SnackbarType\<close> (global slice, not among the source files)
  that the actions use.
\<close>

datatype SnackbarType = SNACKBAR_ERROR | SNACKBAR_INFO

text \<open>
  What the module hands to \<open>dispatch\<close>, named after the action creators that the source
  imports from the slices and from \<open>globalActions\<close>. \<open>showSnackbar\<close> carries the
  \<open>message\<close> and \<open>type\<close> of its argument.
\<close>

datatype action =
    setAvailableGenders json
  | setAvailableModels json
  | setAvailableVoices json
  | setBotConnectedStatus json
  | setCommunicationId jsstring
  | setConfig SystemConfig
  | setConnectionStatus ConnectionStatus
  | setLoading bool
  | doNothing
  | showSnackbar json SnackbarType

record communication =
  loading :: bool
  connectionStatus :: ConnectionStatus
  communicationId :: "jsstring option"
  config :: SystemConfig
  isBotConnected :: json
  availableModels :: json
  availableVoices :: json
  availableGenders :: json

text \<open>
  Modelled from the spec: the reducers of the communication slice, which are not among the
  source files. The spec describes the slices as mirroring the data into the UI: each
  setter stores its payload in its field; the actions of the global slice (\<open>doNothing\<close>,
  \<open>showSnackbar\<close>) leave the communication slice as it is.
\<close>

fun communicationReducer :: "action \<Rightarrow> communication \<Rightarrow> communication" where
  "communicationReducer (setAvailableGenders v) c = c\<lparr>availableGenders := v\<rparr>"
| "communicationReducer (setAvailableModels v) c = c\<lparr>availableModels := v\<rparr>"
| "communicationReducer (setAvailableVoices v) c = c\<lparr>availableVoices := v\<rparr>"
| "communicationReducer (setBotConnectedStatus v) c = c\<lparr>isBotConnected := v\<rparr>"
| "communicationReducer (setCommunicationId i) c = c\<lparr>communicationId := Some i\<rparr>"
| "communicationReducer (setConfig cfg) c = c\<lparr>config := cfg\<rparr>"
| "communicationReducer (setConnectionStatus st) c = c\<lparr>connectionStatus := st\<rparr>"
| "communicationReducer (setLoading b) c = c\<lparr>loading := b\<rparr>"
| "communicationReducer doNothing c = c"
| "communicationReducer (showSnackbar m t) c = c"

section \<open>The state of the page\<close>

text \<open>The four values of \<open>WebSocket.readyState\<close>.\<close>

datatype readyState = WS_CONNECTING | WS_OPEN | WS_CLOSING | WS_CLOSED

record websocket =
  wsCommunicationId :: jsstring
  readyState :: readyState

text \<open>A text handed to \<open>socket.send\<close>: the \<open>JSON.stringify\<close> of a value.\<close>

datatype frame = JSON_stringify json

text \<open>The callback of an interval timer; the module has one, the arrow function of \<open>initPing\<close>.\<close>

datatype callback = SendPing

text \<open>
  Everything the module reads or writes: the store and the trace of what was dispatched,
  \<open>localStorage\<close>, the module variable \<open>socket\<close>, the frames sent, the interval timers
  started (interval in milliseconds and callback), the REST calls issued, the ids of the
  sockets opened, the windows opened, and the environment variable behind \<open>botUrl\<close>.
\<close>

record state =
  store :: communication
  dispatched :: "action list"
  localStorage :: "jsstring \<rightharpoonup> jsstring"
  socket :: "websocket option"
  sent :: "frame list"
  intervals :: "(nat \<times> callback) list"
  createCommunicationCalls :: nat
  getControlPanelConfigCalls :: nat
  initializeWebSocketCalls :: "jsstring list"
  windows :: "jsstring list"
  REACT_APP_BOT_URL :: "jsstring option"

text \<open>
  \<open>dispatch(action)\<close> on a plain action: the store reduces it. A thunk handed to
  \<open>dispatch\<close> is run at once, which the model writes as the call of the thunk.
\<close>

definition dispatch :: "action \<Rightarrow> state \<Rightarrow> state" where
  "dispatch a s = s\<lparr>store := communicationReducer a (store s), dispatched := dispatched s @ [a]\<rparr>"

text \<open>
  What a function leaves behind: it returns, or it throws with the state as it was at
  the throw.
\<close>

datatype outcome = Returned state | Thrown error state

fun after :: "outcome \<Rightarrow> state" where
  "after (Returned s) = s"
| "after (Thrown e s) = s"

definition botUrl :: "state \<Rightarrow> jsstring" where
  "botUrl s = (case REACT_APP_BOT_URL s of None \<Rightarrow> js ''http://localhost:5000'' | Some u \<Rightarrow> u)"

section \<open>store/actions/communicationActions.ts\<close>

text \<open>
  Modelled from the spec: \<open>communicationApi.getControlPanelConfig\<close> of the apis module,
  which is not among the source files, is a REST call that fetches the configuration option
  lists. The model records that the call is issued; its \<open>onSuccess\<close> callback, the only one
  the source passes, arrives later with the response.
\<close>

definition fetchControlPanelConfig :: "state \<Rightarrow> state" where
  "fetchControlPanelConfig s = s\<lparr>getControlPanelConfigCalls := Suc (getControlPanelConfigCalls s)\<rparr>"

definition fetchControlPanelConfig_onSuccess :: "json \<Rightarrow> state \<Rightarrow> outcome" where
  "fetchControlPanelConfig_onSuccess data s =
     (if js_nullish data then Thrown TypeError s
      else
        let s1 = dispatch (setAvailableModels (js_get data (js ''models''))) s;
            s2 = dispatch (setAvailableVoices (js_get data (js ''voices''))) s1
        in Returned (dispatch (setAvailableGenders (js_get data (js ''genders''))) s2))"

text \<open>
  Modelled from the spec: \<open>initializeWebSocket\<close> of the apis module, which is not among
  the source files: it opens a WebSocket for the communication id, wired to the four
  handlers. A new WebSocket is in the state CONNECTING. The module variable \<open>socket\<close>
  takes the new socket.
\<close>

definition initAndHandleWebsocket :: "jsstring \<Rightarrow> state \<Rightarrow> state" where
  "initAndHandleWebsocket cid s =
     s\<lparr>socket := Some \<lparr>wsCommunicationId = cid, readyState = WS_CONNECTING\<rparr>,
       initializeWebSocketCalls := initializeWebSocketCalls s @ [cid]\<rparr>"

text \<open>The response of the create-communication endpoint, as the apis module types it.\<close>

record CreateCommunicationResponse =
  communication_id :: jsstring

text \<open>
  The response may be null or undefined (\<open>None\<close>): \<open>data?.communication_id\<close> is then
  undefined, \<open>setItem\<close> stores its string conversion, and \<open>data.communication_id\<close>
  throws.
\<close>

definition loadOrCreateCommunicationSuccess ::
    "CreateCommunicationResponse option \<Rightarrow> state \<Rightarrow> outcome" where
  "loadOrCreateCommunicationSuccess data s =
     (case data of
        None \<Rightarrow>
          Thrown TypeError
            (s\<lparr>localStorage := (localStorage s)(LS_COMMUNICATION_ID_KEY \<mapsto> js ''undefined'')\<rparr>)
      | Some d \<Rightarrow>
          let cid = communication_id d;
              s1 = s\<lparr>localStorage := (localStorage s)(LS_COMMUNICATION_ID_KEY \<mapsto> cid)\<rparr>;
              s2 = dispatch (setCommunicationId (communication_id d)) s1;
              s3 = dispatch (setLoading False) s2
          in Returned (initAndHandleWebsocket cid s3))"

text \<open>
  \<open>error?.response?.data?.detail ?? error?.message ?? "Communication creation failed!"\<close>
\<close>

definition failureMessage :: "json \<Rightarrow> json" where
  "failureMessage err =
     js_coalesce (js_get (js_get (js_get err (js ''response'')) (js ''data'')) (js ''detail''))
       (js_coalesce (js_get err (js ''message'')) (JStr (js ''Communication creation failed!'')))"

definition loadOrCreateCommunicationFailure :: "json \<Rightarrow> state \<Rightarrow> state" where
  "loadOrCreateCommunicationFailure err s =
     (let s1 = dispatch (showSnackbar (failureMessage err) SNACKBAR_ERROR) s;
          s2 = dispatch (setLoading False) s1
      in dispatch (setConnectionStatus NOT_CONNECTED) s2)"

text \<open>
  Modelled from the spec: \<open>communicationApi.createCommunication\<close> of the apis module, which
  is not among the source files, is the REST call that creates a communication. The model
  records that the call is issued; its callbacks (\<open>loadOrCreateCommunicationSuccess\<close>,
  \<open>loadOrCreateCommunicationFailure\<close>) arrive later.
\<close>

definition createCommunication :: "state \<Rightarrow> state" where
  "createCommunication s = s\<lparr>createCommunicationCalls := Suc (createCommunicationCalls s)\<rparr>"

text \<open>
  \<open>localStorage.getItem\<close> returns null for a missing key (\<open>None\<close>); \<open>if (communicationId)\<close>
  is false for null and for the empty string.
\<close>

definition loadOrCreateCommunication :: "state \<Rightarrow> state" where
  "loadOrCreateCommunication s =
     (let s1 = dispatch (setLoading True) s;
          s2 = dispatch (setConnectionStatus CONNECTING) s1
      in case localStorage s2 LS_COMMUNICATION_ID_KEY of
           None \<Rightarrow> createCommunication s2
         | Some cid \<Rightarrow>
             if cid \<noteq> []
             then initAndHandleWebsocket cid (dispatch (setCommunicationId cid) s2)
             else createCommunication s2)"

definition addNewBot :: "jsstring \<Rightarrow> state \<Rightarrow> state" where
  "addNewBot cid s =
     dispatch (showSnackbar (JStr (js ''Adding Bot'')) SNACKBAR_INFO)
       (s\<lparr>windows := windows s @ [botUrl s @ js ''/?communication_id='' @ cid]\<rparr>)"

definition handleSocketMessageSend :: "json \<Rightarrow> state \<Rightarrow> state" where
  "handleSocketMessageSend data s =
     (case socket s of
        None \<Rightarrow> s
      | Some ws \<Rightarrow>
          if readyState ws = WS_CONNECTING \<or> readyState ws = WS_CLOSING \<or> readyState ws = WS_CLOSED
          then s
          else s\<lparr>sent := sent s @ [JSON_stringify data]\<rparr>)"

text \<open>\<open>setInterval(() => handleSocketMessageSend({type: PING}), interval)\<close>\<close>

definition initPing :: "nat \<Rightarrow> state \<Rightarrow> state" where
  "initPing interval s = s\<lparr>intervals := intervals s @ [(interval, SendPing)]\<rparr>"

fun runCallback :: "callback \<Rightarrow> state \<Rightarrow> state" where
  "runCallback SendPing s = handleSocketMessageSend (JObj [(js ''type'', JStr PING)]) s"

text \<open>
  The handlers of the socket's open, error and close events start what they start and
  return an action, which the wiring of \<open>initAndHandleWebsocket\<close> dispatches.
\<close>

definition handleConnectionOnOpen :: "state \<Rightarrow> action \<times> state" where
  "handleConnectionOnOpen s = (setConnectionStatus CONNECTED, initPing 5000 s)"

definition handleSocketOnError :: action where
  "handleSocketOnError = setConnectionStatus NOT_CONNECTED"

definition handleSocketOnClose :: action where
  "handleSocketOnClose = setConnectionStatus NOT_CONNECTED"

definition parseSocketConfig :: "json \<Rightarrow> error + SystemConfig" where
  "parseSocketConfig data =
     (if js_nullish data then Inl TypeError
      else Inr \<lparr>
        skin = js_get data (js ''skin''),
        audioEnabled = js_get data (js ''audio_enabled''),
        textEnabled = js_get data (js ''text_enabled''),
        llmModel = js_get data (js ''llm_model''),
        voiceLanguageCode = js_get data (js ''voice_language_code''),
        voiceGender = js_get data (js ''voice_gender''),
        proactiveModeEnabled = js_get data (js ''proactive_mode_enabled''),
        subtitlesEnabled = js_coalesce (js_get data (js ''subtitles_enabled'')) (JBool True),
        customPromptSuffix = JUndefined\<rparr>)"

definition makeSocketConfig :: "SystemConfig \<Rightarrow> json" where
  "makeSocketConfig data =
     JObj [
       (js ''skin'', skin data),
       (js ''audio_enabled'', audioEnabled data),
       (js ''text_enabled'', textEnabled data),
       (js ''llm_model'', llmModel data),
       (js ''voice_language_code'', voiceLanguageCode data),
       (js ''voice_gender'', voiceGender data),
       (js ''proactive_mode_enabled'', proactiveModeEnabled data),
       (js ''subtitles_enabled'',
          if subtitlesEnabled data \<noteq> JUndefined then subtitlesEnabled data else JBool True)]"

text \<open>The switch of the router, on a message that was destructured into \<open>type\<close> and \<open>data\<close>.\<close>

definition routeMessage :: "builtins \<Rightarrow> json \<Rightarrow> json \<Rightarrow> state \<Rightarrow> outcome" where
  "routeMessage B type data s =
     (if type = JStr INVALID_COMMUNICATION_ID then
        Returned (loadOrCreateCommunication
          (s\<lparr>localStorage := (localStorage s)(LS_COMMUNICATION_ID_KEY := None)\<rparr>))
      else if type = JStr UI_ERROR then
        (if js_nullish data then Thrown TypeError s
         else Returned (dispatch (showSnackbar (js_get data (js ''message'')) SNACKBAR_ERROR) s))
      else if type = JStr ERROR then
        (if js_nullish data then Thrown TypeError s
         else if js_truthy (js_get data (js ''message''))
         then Returned (dispatch (showSnackbar (js_get data (js ''message'')) SNACKBAR_ERROR) s)
         else Returned s)
      else if type = JStr SYSTEM_CONFIG then
        (if js_nullish data then Thrown TypeError s
         else case parseSocketConfig (js_get data (js ''config'')) of
                Inl e \<Rightarrow> Thrown e s
              | Inr cfg \<Rightarrow> Returned (dispatch (setConfig cfg) s))
      else if type = JStr CLOSE_CONNECTION then
        (if js_nullish data then Thrown TypeError s
         else Returned (dispatch (showSnackbar (js_get data (js ''message'')) SNACKBAR_ERROR) s))
      else if type = JStr IS_BOT_CONNECTED then
        (if js_nullish data then Thrown TypeError s
         else
           let s1 = (if js_truthy (js_get data (js ''message''))
                     then dispatch (showSnackbar (js_get data (js ''message'')) SNACKBAR_INFO) s
                     else s)
           in Returned (dispatch (setBotConnectedStatus (js_get data (js ''value''))) s1))
      else if type = JStr PING_STATE then
        (if js_nullish data then Thrown TypeError s
         else Returned (dispatch (setBotConnectedStatus
                 (js_coalesce (js_get data (js ''is_bot_connected'')) (JBool False))) s))
      else if type = JStr USER_INPUT then
        (if js_truthy (js_get data (js ''text'')) then
           (case ToString B (js_get data (js ''text'')) of
              Inl e \<Rightarrow> Thrown e s
            | Inr t \<Rightarrow> Returned (dispatch (showSnackbar (JStr (js ''User said: '' @ t)) SNACKBAR_INFO) s))
         else if js_truthy (js_get data (js ''audio'')) then
           Returned (dispatch (showSnackbar
             (JStr (js ''User sent audio (forwarded to control panel)'')) SNACKBAR_INFO) s)
         else Returned s)
      else if type = JStr NEW_CONTROL_PANEL_DETECTED then
        (if js_nullish data then Thrown TypeError s
         else Returned (dispatch (showSnackbar (js_get data (js ''message'')) SNACKBAR_ERROR) s))
      else Returned (dispatch doNothing s))"

text \<open>
  \<open>const { type, data } = messageToJson(event.data)\<close> throws a TypeError when the decoded
  value is null or undefined; then the switch.
\<close>

definition handleSocketOnMessage :: "builtins \<Rightarrow> jsstring \<Rightarrow> state \<Rightarrow> outcome" where
  "handleSocketOnMessage B raw s =
     (case messageToJson B raw of
        Inl e \<Rightarrow> Thrown e s
      | Inr msg \<Rightarrow>
          if js_nullish msg then Thrown TypeError s
          else routeMessage B (js_get msg (js ''type'')) (js_get msg (js ''data'')) s)"

text \<open>
  \<open>socketUpdateConfig\<close> sends and returns the action \<open>doNothing\<close>, which its caller
  dispatches.
\<close>

definition socketUpdateConfig :: "SystemConfig \<Rightarrow> state \<Rightarrow> action \<times> state" where
  "socketUpdateConfig cfg s =
     (doNothing,
      handleSocketMessageSend
        (JObj [(js ''type'', JStr UPDATE_CONFIG),
               (js ''data'', JObj [(js ''config'', makeSocketConfig cfg)])]) s)"

text \<open>
  \<open>!text || !text.trim()\<close> on a string: the text is empty, or nothing is left of it after
  trimming. The \<open>doNothing()\<close> that the thunk returns is not dispatched.
\<close>

definition sendTextToLLM :: "jsstring \<Rightarrow> state \<Rightarrow> state" where
  "sendTextToLLM text s =
     (if text = [] \<or> js_trim text = [] then
        dispatch (showSnackbar (JStr (js ''Please provide text to send to the AI'')) SNACKBAR_ERROR) s
      else
        let s1 = handleSocketMessageSend
                   (JObj [(js ''type'', JStr SEND_TEXT), (js ''data'', JObj [(js ''text'', JStr text)])]) s
        in dispatch (showSnackbar (JStr (js ''Sent text to AI'')) SNACKBAR_INFO) s1)"

section \<open>The events of the page\<close>

text \<open>
  What can happen to the module: a component dispatches one of its exported actions, a
  REST call answers, the socket fires one of its events, the browser moves the socket to
  another ready state, or an interval timer fires.
\<close>

datatype event =
    Dispatch_fetchControlPanelConfig
  | GetControlPanelConfig_onSuccess json
  | Dispatch_loadOrCreateCommunication
  | CreateCommunication_onSuccess "CreateCommunicationResponse option"
  | CreateCommunication_onFailure json
  | Dispatch_addNewBot jsstring
  | Socket_onOpen
  | Socket_onMessage jsstring
  | Socket_onError
  | Socket_onClose
  | Socket_readyState readyState
  | Dispatch_socketUpdateConfig SystemConfig
  | Dispatch_sendTextToLLM jsstring
  | Interval_fires nat

text \<open>
  One event, from the state before to the state after. An exception that escapes a
  handler is reported by the browser and the page goes on with the state at the throw.
\<close>

fun step :: "builtins \<Rightarrow> event \<Rightarrow> state \<Rightarrow> state" where
  "step B Dispatch_fetchControlPanelConfig s = fetchControlPanelConfig s"
| "step B (GetControlPanelConfig_onSuccess data) s = after (fetchControlPanelConfig_onSuccess data s)"
| "step B Dispatch_loadOrCreateCommunication s = loadOrCreateCommunication s"
| "step B (CreateCommunication_onSuccess data) s = after (loadOrCreateCommunicationSuccess data s)"
| "step B (CreateCommunication_onFailure err) s = loadOrCreateCommunicationFailure err s"
| "step B (Dispatch_addNewBot cid) s = addNewBot cid s"
| "step B Socket_onOpen s = (case handleConnectionOnOpen s of (a, s') \<Rightarrow> dispatch a s')"
| "step B (Socket_onMessage raw) s = after (handleSocketOnMessage B raw s)"
| "step B Socket_onError s = dispatch handleSocketOnError s"
| "step B Socket_onClose s = dispatch handleSocketOnClose s"
| "step B (Socket_readyState rs) s =
     (case socket s of None \<Rightarrow> s | Some ws \<Rightarrow> s\<lparr>socket := Some (ws\<lparr>readyState := rs\<rparr>)\<rparr>)"
| "step B (Dispatch_socketUpdateConfig cfg) s = (case socketUpdateConfig cfg s of (a, s') \<Rightarrow> dispatch a s')"
| "step B (Dispatch_sendTextToLLM text) s = sendTextToLLM text s"
| "step B (Interval_fires i) s =
     (if i < length (intervals s) then runCallback (snd (intervals s ! i)) s else s)"

fun run :: "builtins \<Rightarrow> event list \<Rightarrow> state \<Rightarrow> state" where
  "run B [] s = s"
| "run B (e # es) s = run B es (step B e s)"

section \<open>Vocabulary of the properties\<close>

text \<open>
  The \<open>type\<close> that the router switches on, for a raw message: the property of the decoded
  value, and nothing when the destructuring throws.
\<close>

definition messageType :: "builtins \<Rightarrow> jsstring \<Rightarrow> json option" where
  "messageType B raw =
     (case messageToJson B raw of
        Inl e \<Rightarrow> None
      | Inr msg \<Rightarrow> if js_nullish msg then None else Some (js_get msg (js ''type'')))"

text \<open>The actions dispatched between a state and a later one.\<close>

definition newlyDispatched :: "state \<Rightarrow> state \<Rightarrow> action list" where
  "newlyDispatched s s' = drop (length (dispatched s)) (dispatched s')"

text \<open>The connection-status values that a list of actions assigns, in order.\<close>

fun statusWrites :: "action list \<Rightarrow> ConnectionStatus list" where
  "statusWrites [] = []"
| "statusWrites (setConnectionStatus st # as) = st # statusWrites as"
| "statusWrites (a # as) = statusWrites as"

text \<open>
  Nothing of a connection attempt happened between a state and a later one: no REST call
  to create a communication, no socket opened, the module's socket is the same, no timer
  was started, and neither \<open>setLoading(true)\<close> nor \<open>setConnectionStatus(CONNECTING)\<close>, the
  first two dispatches of \<open>loadOrCreateCommunication\<close>, was dispatched.
\<close>

definition noReconnection :: "state \<Rightarrow> state \<Rightarrow> bool" where
  "noReconnection s s' \<longleftrightarrow>
     createCommunicationCalls s' = createCommunicationCalls s
     \<and> initializeWebSocketCalls s' = initializeWebSocketCalls s
     \<and> socket s' = socket s
     \<and> intervals s' = intervals s
     \<and> setLoading True \<notin> set (newlyDispatched s s')
     \<and> setConnectionStatus CONNECTING \<notin> set (newlyDispatched s s')"

text \<open>
  The connection-status values that the claim C4 has each event assign: \<open>CONNECTING\<close> by
  \<open>loadOrCreateCommunication\<close> (dispatched by a component, or by the router on an
  \<open>INVALID_COMMUNICATION_ID\<close> message), \<open>CONNECTED\<close> by the open handler, \<open>NOT_CONNECTED\<close>
  by the error handler, the close handler and the creation-failure handler, and none by
  any other event.
\<close>

fun claimedStatusWrites :: "builtins \<Rightarrow> event \<Rightarrow> ConnectionStatus list" where
  "claimedStatusWrites B Dispatch_loadOrCreateCommunication = [CONNECTING]"
| "claimedStatusWrites B Socket_onOpen = [CONNECTED]"
| "claimedStatusWrites B Socket_onError = [NOT_CONNECTED]"
| "claimedStatusWrites B Socket_onClose = [NOT_CONNECTED]"
| "claimedStatusWrites B (CreateCommunication_onFailure err) = [NOT_CONNECTED]"
| "claimedStatusWrites B (Socket_onMessage raw) =
     (if messageType B raw = Some (JStr INVALID_COMMUNICATION_ID) then [CONNECTING] else [])"
| "claimedStatusWrites B e = []"

text \<open>The module variable \<open>socket\<close> holds a socket and its ready state is OPEN.\<close>

definition socketOpen :: "state \<Rightarrow> bool" where
  "socketOpen s = (case socket s of None \<Rightarrow> False | Some ws \<Rightarrow> readyState ws = WS_OPEN)"

text \<open>The eight property names of the wire configuration.\<close>

definition wireFields :: "jsstring list" where
  "wireFields =
     [js ''skin'', js ''audio_enabled'', js ''text_enabled'', js ''llm_model'',
      js ''voice_language_code'', js ''voice_gender'', js ''proactive_mode_enabled'',
      js ''subtitles_enabled'']"

text \<open>
  A page to evaluate the functions on: the module variable \<open>socket\<close> is null, as it is
  when the module loads, nothing has been dispatched, sent or stored, and the store holds
  empty values.
\<close>

definition page0 :: state where
  "page0 =
     \<lparr>store =
        \<lparr>loading = False, connectionStatus = NOT_CONNECTED, communicationId = None,
         config =
           \<lparr>skin = JUndefined, audioEnabled = JUndefined, textEnabled = JUndefined,
            llmModel = JUndefined, voiceLanguageCode = JUndefined, voiceGender = JUndefined,
            proactiveModeEnabled = JUndefined, subtitlesEnabled = JUndefined,
            customPromptSuffix = JUndefined\<rparr>,
         isBotConnected = JBool False, availableModels = JArr [], availableVoices = JArr [],
         availableGenders = JArr []\<rparr>,
      dispatched = [], localStorage = Map.empty, socket = None, sent = [], intervals = [],
      createCommunicationCalls = 0, getControlPanelConfigCalls = 0,
      initializeWebSocketCalls = [], windows = [], REACT_APP_BOT_URL = None\<rparr>"

text \<open>
  A platform to evaluate the functions on: \<open>JSON.parse\<close> knows the listed texts with their
  values and throws on every other text; the string conversion is given on strings, the
  only values the examples convert.
\<close>

definition platform :: "(jsstring \<times> json) list \<Rightarrow> builtins" where
  "platform texts =
     \<lparr>JSON_parse = (\<lambda>raw. case map_of texts raw of None \<Rightarrow> Inl SyntaxError | Some v \<Rightarrow> Inr v),
      ToString = (\<lambda>v. case v of JStr t \<Rightarrow> Inr t | _ \<Rightarrow> Inl TypeError)\<rparr>"

section \<open>Strings\<close>

lemma of_char_less_256: "(of_char c :: nat) < 256"
proof -
  have "(of_char c :: nat) mod 256 = of_char c"
    by (rule of_char_mod_256)
  then show ?thesis
    by (metis mod_less_divisor zero_less_numeral)
qed

lemma unat_of_char: "unat (of_char c :: 16 word) = of_char c"
proof -
  have "(of_char c :: 16 word) = of_nat (of_char c)"
    by (simp add: of_nat_of_char)
  moreover have "(of_char c :: nat) < 2 ^ 16"
    by (rule less_trans [OF of_char_less_256]) simp
  ultimately show ?thesis
    by (simp add: unat_of_nat)
qed

lemma of_char_word16_eq_iff: "(of_char c :: 16 word) = of_char d \<longleftrightarrow> c = d"
proof
  assume "(of_char c :: 16 word) = of_char d"
  then have "unat (of_char c :: 16 word) = unat (of_char d :: 16 word)"
    by simp
  then have "(of_char c :: nat) = of_char d"
    by (simp only: unat_of_char)
  then show "c = d"
    by simp
qed simp

lemma js_eq_iff: "js a = js b \<longleftrightarrow> a = b"
  unfolding js_def by (simp add: inj_map_eq_map inj_def of_char_word16_eq_iff)

lemma js_Nil_iff: "js a = [] \<longleftrightarrow> a = []"
  by (simp add: js_def)

lemmas msgTypes_defs =
  UI_ERROR_def CLOSE_CONNECTION_def INVALID_COMMUNICATION_ID_def ERROR_def IS_BOT_CONNECTED_def
  NEW_CONTROL_PANEL_DETECTED_def SYSTEM_CONFIG_def PING_STATE_def USER_INPUT_def

section \<open>The configuration translations\<close>

text \<open>
  C9, as amended. \<open>makeSocketConfig\<close> undoes \<open>parseSocketConfig\<close> on the eight wire fields
  of every wire record whose \<open>subtitles_enabled\<close> is neither undefined nor null; on the
  seven other fields it does so for every record. When \<open>subtitles_enabled\<close> is absent or
  null, parsing produces \<open>true\<close> for it, and when \<open>subtitlesEnabled\<close> is undefined in a
  client configuration, \<open>makeSocketConfig\<close> sends \<open>true\<close>.
\<close>

theorem makeSocketConfig_parseSocketConfig:
  assumes "parseSocketConfig r = Inr c"
  shows "(\<not> js_nullish (js_get r (js ''subtitles_enabled'')) \<longrightarrow>
            (\<forall>k \<in> set wireFields. js_get (makeSocketConfig c) k = js_get r k))
       \<and> (\<forall>k \<in> set wireFields. k \<noteq> js ''subtitles_enabled'' \<longrightarrow>
            js_get (makeSocketConfig c) k = js_get r k)
       \<and> (js_nullish (js_get r (js ''subtitles_enabled'')) \<longrightarrow>
            subtitlesEnabled c = JBool True
            \<and> js_get (makeSocketConfig c) (js ''subtitles_enabled'') = JBool True)
       \<and> (subtitlesEnabled c' = JUndefined \<longrightarrow>
            js_get (makeSocketConfig c') (js ''subtitles_enabled'') = JBool True)"
  using assms
  by (auto simp: parseSocketConfig_def makeSocketConfig_def wireFields_def js_eq_iff
      js_coalesce_def split: if_splits)

text \<open>
  The theorem at the wire record \<open>{skin: "simple", subtitles_enabled: false}\<close>: the
  translation there and back gives \<open>false\<close> for the subtitles and \<open>"simple"\<close> for the skin.
\<close>

theorem makeSocketConfig_parseSocketConfig_witness:
  "\<not> isl (parseSocketConfig
       (JObj [(js ''skin'', JStr (js ''simple'')), (js ''subtitles_enabled'', JBool False)]))
   \<and> \<not> js_nullish (js_get
       (JObj [(js ''skin'', JStr (js ''simple'')), (js ''subtitles_enabled'', JBool False)])
       (js ''subtitles_enabled''))
   \<and> js_get (makeSocketConfig (projr (parseSocketConfig
       (JObj [(js ''skin'', JStr (js ''simple'')), (js ''subtitles_enabled'', JBool False)]))))
       (js ''subtitles_enabled'') = JBool False
   \<and> js_get (makeSocketConfig (projr (parseSocketConfig
       (JObj [(js ''skin'', JStr (js ''simple'')), (js ''subtitles_enabled'', JBool False)]))))
       (js ''skin'') = JStr (js ''simple'')"
proof -
  let ?r = "JObj [(js ''skin'', JStr (js ''simple'')), (js ''subtitles_enabled'', JBool False)]"
  have p: "parseSocketConfig ?r = Inr (projr (parseSocketConfig ?r))"
    by (simp add: parseSocketConfig_def)
  have n: "\<not> isl (parseSocketConfig ?r)"
    by (simp add: parseSocketConfig_def)
  have d: "\<not> js_nullish (js_get ?r (js ''subtitles_enabled''))"
    by (simp add: js_eq_iff)
  have "\<forall>k \<in> set wireFields. js_get (makeSocketConfig (projr (parseSocketConfig ?r))) k = js_get ?r k"
    using makeSocketConfig_parseSocketConfig [OF p] d by blast
  then have "js_get (makeSocketConfig (projr (parseSocketConfig ?r))) (js ''subtitles_enabled'')
               = js_get ?r (js ''subtitles_enabled'')"
        and "js_get (makeSocketConfig (projr (parseSocketConfig ?r))) (js ''skin'')
               = js_get ?r (js ''skin'')"
    by (simp_all add: wireFields_def)
  then show ?thesis
    using n d by (simp add: js_eq_iff)
qed

text \<open>
  C9 as the claim states it fails at the wire record \<open>{subtitles_enabled: null}\<close>: the field
  is defined (it is null, not undefined), yet the translation there and back gives \<open>true\<close>.
\<close>

theorem makeSocketConfig_parseSocketConfig_null_counterexample:
  "\<not> isl (parseSocketConfig (JObj [(js ''subtitles_enabled'', JNull)]))
   \<and> js_get (JObj [(js ''subtitles_enabled'', JNull)]) (js ''subtitles_enabled'') = JNull
   \<and> JNull \<noteq> JUndefined
   \<and> js_get (makeSocketConfig (projr (parseSocketConfig (JObj [(js ''subtitles_enabled'', JNull)]))))
        (js ''subtitles_enabled'') = JBool True"
  by (simp add: parseSocketConfig_def makeSocketConfig_def js_eq_iff js_coalesce_def)

section \<open>The router, case by case\<close>


lemma handleSocketOnMessage_route:
  "messageToJson B raw = Inr msg \<Longrightarrow> \<not> js_nullish msg \<Longrightarrow>
   handleSocketOnMessage B raw s = routeMessage B (js_get msg (js ''type'')) (js_get msg (js ''data'')) s"
  by (simp add: handleSocketOnMessage_def)

lemma route_INVALID_COMMUNICATION_ID:
  "routeMessage B (JStr INVALID_COMMUNICATION_ID) data s =
     Returned (loadOrCreateCommunication
       (s\<lparr>localStorage := (localStorage s)(LS_COMMUNICATION_ID_KEY := None)\<rparr>))"
  by (simp add: routeMessage_def)

lemma route_UI_ERROR:
  "routeMessage B (JStr UI_ERROR) data s =
     (if js_nullish data then Thrown TypeError s
      else Returned (dispatch (showSnackbar (js_get data (js ''message'')) SNACKBAR_ERROR) s))"
  by (simp add: routeMessage_def msgTypes_defs js_eq_iff)

lemma route_ERROR:
  "routeMessage B (JStr ERROR) data s =
     (if js_nullish data then Thrown TypeError s
      else if js_truthy (js_get data (js ''message''))
      then Returned (dispatch (showSnackbar (js_get data (js ''message'')) SNACKBAR_ERROR) s)
      else Returned s)"
  by (simp add: routeMessage_def msgTypes_defs js_eq_iff)

lemma route_SYSTEM_CONFIG:
  "routeMessage B (JStr SYSTEM_CONFIG) data s =
     (if js_nullish data then Thrown TypeError s
      else case parseSocketConfig (js_get data (js ''config'')) of
             Inl e \<Rightarrow> Thrown e s
           | Inr cfg \<Rightarrow> Returned (dispatch (setConfig cfg) s))"
  by (simp add: routeMessage_def msgTypes_defs js_eq_iff)

lemma route_CLOSE_CONNECTION:
  "routeMessage B (JStr CLOSE_CONNECTION) data s =
     (if js_nullish data then Thrown TypeError s
      else Returned (dispatch (showSnackbar (js_get data (js ''message'')) SNACKBAR_ERROR) s))"
  by (simp add: routeMessage_def msgTypes_defs js_eq_iff)

lemma route_IS_BOT_CONNECTED:
  "routeMessage B (JStr IS_BOT_CONNECTED) data s =
     (if js_nullish data then Thrown TypeError s
      else if js_truthy (js_get data (js ''message''))
      then Returned (dispatch (setBotConnectedStatus (js_get data (js ''value'')))
             (dispatch (showSnackbar (js_get data (js ''message'')) SNACKBAR_INFO) s))
      else Returned (dispatch (setBotConnectedStatus (js_get data (js ''value''))) s))"
  by (simp add: routeMessage_def msgTypes_defs js_eq_iff)

lemma route_PING_STATE:
  "routeMessage B (JStr PING_STATE) data s =
     (if js_nullish data then Thrown TypeError s
      else Returned (dispatch (setBotConnectedStatus
              (js_coalesce (js_get data (js ''is_bot_connected'')) (JBool False))) s))"
  by (simp add: routeMessage_def msgTypes_defs js_eq_iff)

lemma route_USER_INPUT:
  "routeMessage B (JStr USER_INPUT) data s =
     (if js_truthy (js_get data (js ''text'')) then
        (case ToString B (js_get data (js ''text'')) of
           Inl e \<Rightarrow> Thrown e s
         | Inr t \<Rightarrow> Returned (dispatch (showSnackbar (JStr (js ''User said: '' @ t)) SNACKBAR_INFO) s))
      else if js_truthy (js_get data (js ''audio'')) then
        Returned (dispatch (showSnackbar
          (JStr (js ''User sent audio (forwarded to control panel)'')) SNACKBAR_INFO) s)
      else Returned s)"
  by (simp add: routeMessage_def msgTypes_defs js_eq_iff)

lemma route_NEW_CONTROL_PANEL_DETECTED:
  "routeMessage B (JStr NEW_CONTROL_PANEL_DETECTED) data s =
     (if js_nullish data then Thrown TypeError s
      else Returned (dispatch (showSnackbar (js_get data (js ''message'')) SNACKBAR_ERROR) s))"
  by (simp add: routeMessage_def msgTypes_defs js_eq_iff)

lemma route_default:
  "\<forall>t \<in> set socketReceiveMsgTypes. type \<noteq> JStr t \<Longrightarrow>
   routeMessage B type data s = Returned (dispatch doNothing s)"
  by (simp add: routeMessage_def socketReceiveMsgTypes_def)

lemma dispatch_doNothing: "dispatch doNothing s = s\<lparr>dispatched := dispatched s @ [doNothing]\<rparr>"
  by (simp add: dispatch_def)

lemma parseErrorEnvelope_fields:
  "\<not> js_nullish parseErrorEnvelope"
  "js_get parseErrorEnvelope (js ''type'') = JStr UI_ERROR"
  "js_get parseErrorEnvelope (js ''data'') = JObj [(js ''message'', JStr (js ''Error parsing json!''))]"
  by (simp_all add: parseErrorEnvelope_def js_eq_iff)

section \<open>The decoder\<close>

text \<open>
  C5, as amended. \<open>messageToJson\<close> is total: for every input text it returns a value and
  does not throw. When the text parses as JSON it returns the parsed value as it is, and
  when parsing fails it returns the envelope with type \<open>UI_ERROR\<close> and \<open>data.message\<close>
  equal to \<open>Error parsing json!\<close>, which the router shows as an error snackbar.
\<close>

theorem messageToJson_total:
  "(\<exists>v. messageToJson B raw = Inr v)
   \<and> (JSON_parse B raw = Inr v \<longrightarrow> messageToJson B raw = Inr v)
   \<and> (JSON_parse B raw = Inl e \<longrightarrow>
        messageToJson B raw = Inr parseErrorEnvelope
        \<and> js_get parseErrorEnvelope (js ''type'') = JStr UI_ERROR
        \<and> js_get (js_get parseErrorEnvelope (js ''data'')) (js ''message'')
            = JStr (js ''Error parsing json!'')
        \<and> handleSocketOnMessage B raw s =
            Returned (dispatch (showSnackbar (JStr (js ''Error parsing json!'')) SNACKBAR_ERROR) s))"
proof -
  have total: "\<exists>v. messageToJson B raw = Inr v"
    by (simp add: messageToJson_def split: sum.split)
  have ok: "JSON_parse B raw = Inr v \<longrightarrow> messageToJson B raw = Inr v"
    by (simp add: messageToJson_def)
  have bad: "messageToJson B raw = Inr parseErrorEnvelope" if "JSON_parse B raw = Inl e"
    using that by (simp add: messageToJson_def)
  have shown: "handleSocketOnMessage B raw s =
      Returned (dispatch (showSnackbar (JStr (js ''Error parsing json!'')) SNACKBAR_ERROR) s)"
    if "JSON_parse B raw = Inl e"
    using handleSocketOnMessage_route [OF bad [OF that] parseErrorEnvelope_fields(1), of s]
    by (simp add: parseErrorEnvelope_fields route_UI_ERROR js_eq_iff)
  show ?thesis
    using total ok bad shown by (simp add: parseErrorEnvelope_fields js_eq_iff)
qed

text \<open>
  The theorem at a text that is not JSON: the decoder returns the error envelope and the
  router dispatches the error snackbar, and nothing else.
\<close>

theorem messageToJson_total_witness:
  "JSON_parse (platform []) (js ''not json'') = Inl SyntaxError
   \<and> messageToJson (platform []) (js ''not json'') = Inr parseErrorEnvelope
   \<and> dispatched (after (handleSocketOnMessage (platform []) (js ''not json'') page0))
       = [showSnackbar (JStr (js ''Error parsing json!'')) SNACKBAR_ERROR]"
proof -
  have h: "JSON_parse (platform []) (js ''not json'') = Inl SyntaxError"
    by (simp add: platform_def)
  show ?thesis
    using h messageToJson_total [of "platform []" "js ''not json''" JNull SyntaxError page0]
    by (simp add: dispatch_def page0_def)
qed

text \<open>
  C5 as the claim states it fails at the text \<open>null\<close>, which parses as JSON: the decoder
  returns null, which is not an envelope, and the router throws a TypeError when it
  destructures it.
\<close>

theorem messageToJson_null_counterexample:
  "JSON_parse (platform [(js ''null'', JNull)]) (js ''null'') = Inr JNull
   \<and> messageToJson (platform [(js ''null'', JNull)]) (js ''null'') = Inr JNull
   \<and> handleSocketOnMessage (platform [(js ''null'', JNull)]) (js ''null'') page0
       = Thrown TypeError page0"
  by (simp add: platform_def messageToJson_def handleSocketOnMessage_def)

section \<open>Configuration synchronisation\<close>

text \<open>
  C3, as amended. For every inbound \<open>SYSTEM_CONFIG\<close> message whose \<open>data\<close> and
  \<open>data.config\<close> are neither null nor undefined, the router dispatches one action,
  \<open>setConfig\<close> of \<open>parseSocketConfig\<close> applied to \<open>data.config\<close>, so that the whole
  client-side configuration becomes that value whatever the page held before (the states
  \<open>s\<close> and \<open>s'\<close> are arbitrary): nothing is merged, versioned or compared.
\<close>

theorem system_config_last_write_wins:
  assumes "messageToJson B raw = Inr msg"
    and "\<not> js_nullish msg"
    and "js_get msg (js ''type'') = JStr SYSTEM_CONFIG"
    and "\<not> js_nullish (js_get msg (js ''data''))"
    and "\<not> js_nullish (js_get (js_get msg (js ''data'')) (js ''config''))"
  shows "\<exists>cfg. parseSocketConfig (js_get (js_get msg (js ''data'')) (js ''config'')) = Inr cfg
           \<and> handleSocketOnMessage B raw s = Returned (dispatch (setConfig cfg) s)
           \<and> newlyDispatched s (after (handleSocketOnMessage B raw s)) = [setConfig cfg]
           \<and> config (store (after (handleSocketOnMessage B raw s))) = cfg
           \<and> config (store (after (handleSocketOnMessage B raw s'))) = cfg"
proof -
  obtain cfg where p: "parseSocketConfig (js_get (js_get msg (js ''data'')) (js ''config'')) = Inr cfg"
    using assms(5) by (simp add: parseSocketConfig_def)
  have r: "handleSocketOnMessage B raw t = Returned (dispatch (setConfig cfg) t)" for t
    using handleSocketOnMessage_route [OF assms(1,2), of t] assms(3,4) p
    by (simp add: route_SYSTEM_CONFIG)
  have "newlyDispatched s (dispatch (setConfig cfg) s) = [setConfig cfg]"
    by (simp add: newlyDispatched_def dispatch_def)
  moreover have "config (store (dispatch (setConfig cfg) t)) = cfg" for t
    by (simp add: dispatch_def)
  ultimately show ?thesis
    using p r by simp
qed

text \<open>
  The theorem at the message \<open>{"type":"SYSTEM_CONFIG","data":{"config":{"skin":"simple"}}}\<close>:
  the configuration of the store becomes the parsed one, with the subtitles enabled.
\<close>

theorem system_config_last_write_wins_witness:
  \<open>config (store (after (handleSocketOnMessage
      (platform [(js ''{"type":"SYSTEM_CONFIG","data":{"config":{"skin":"simple"}}}'',
         JObj [(js ''type'', JStr SYSTEM_CONFIG),
               (js ''data'', JObj [(js ''config'', JObj [(js ''skin'', JStr (js ''simple''))])])])])
      (js ''{"type":"SYSTEM_CONFIG","data":{"config":{"skin":"simple"}}}'') page0)))
   = \<lparr>skin = JStr (js ''simple''), audioEnabled = JUndefined, textEnabled = JUndefined,
      llmModel = JUndefined, voiceLanguageCode = JUndefined, voiceGender = JUndefined,
      proactiveModeEnabled = JUndefined, subtitlesEnabled = JBool True,
      customPromptSuffix = JUndefined\<rparr>\<close>
proof -
  let ?raw = \<open>js ''{"type":"SYSTEM_CONFIG","data":{"config":{"skin":"simple"}}}''\<close>
  let ?msg = "JObj [(js ''type'', JStr SYSTEM_CONFIG),
               (js ''data'', JObj [(js ''config'', JObj [(js ''skin'', JStr (js ''simple''))])])]"
  let ?B = "platform [(?raw, ?msg)]"
  have a: "messageToJson ?B ?raw = Inr ?msg"
    by (simp add: messageToJson_def platform_def)
  have b: "\<not> js_nullish ?msg" by simp
  have c: "js_get ?msg (js ''type'') = JStr SYSTEM_CONFIG" by (simp add: js_eq_iff)
  have d: "\<not> js_nullish (js_get ?msg (js ''data''))" by (simp add: js_eq_iff)
  have e: "\<not> js_nullish (js_get (js_get ?msg (js ''data'')) (js ''config''))" by (simp add: js_eq_iff)
  from system_config_last_write_wins [OF a b c d e, of page0 page0]
  obtain cfg where "parseSocketConfig (js_get (js_get ?msg (js ''data'')) (js ''config'')) = Inr cfg"
    and "config (store (after (handleSocketOnMessage ?B ?raw page0))) = cfg"
    by blast
  then show ?thesis
    by (simp add: parseSocketConfig_def js_eq_iff js_coalesce_def)
qed

text \<open>
  C3 as the claim states it fails at the message \<open>{"type":"SYSTEM_CONFIG","data":{}}\<close>:
  \<open>data.config\<close> is undefined, \<open>parseSocketConfig\<close> throws a TypeError on it, and the
  router leaves the page as it was, the configuration included.
\<close>

theorem system_config_without_config_counterexample:
  \<open>messageType
      (platform [(js ''{"type":"SYSTEM_CONFIG","data":{}}'',
         JObj [(js ''type'', JStr SYSTEM_CONFIG), (js ''data'', JObj [])])])
      (js ''{"type":"SYSTEM_CONFIG","data":{}}'') = Some (JStr SYSTEM_CONFIG)
   \<and> handleSocketOnMessage
      (platform [(js ''{"type":"SYSTEM_CONFIG","data":{}}'',
         JObj [(js ''type'', JStr SYSTEM_CONFIG), (js ''data'', JObj [])])])
      (js ''{"type":"SYSTEM_CONFIG","data":{}}'') page0 = Thrown TypeError page0\<close>
  by (simp add: platform_def messageToJson_def messageType_def handleSocketOnMessage_def
      route_SYSTEM_CONFIG parseSocketConfig_def js_eq_iff)

section \<open>The message router\<close>

lemma socketReceiveMsgTypes_nine:
  "length socketReceiveMsgTypes = 9" "distinct socketReceiveMsgTypes"
  by (simp_all add: socketReceiveMsgTypes_def msgTypes_defs js_eq_iff)

text \<open>
  C1. \<open>handleSocketOnMessage\<close> dispatches on nine distinct message types. For a message
  whose \<open>type\<close> is one of them it runs the case of that type, each spelled out below
  with what it dispatches (and the TypeError it throws when it reads a property of a
  \<open>data\<close> that is null or undefined); for a message whose \<open>type\<close> is any other string it
  dispatches \<open>doNothing\<close>, which adds that action to the trace and changes nothing else.
\<close>

theorem handleSocketOnMessage_dispatches_on_type:
  assumes "messageToJson B raw = Inr msg"
    and "\<not> js_nullish msg"
    and "js_get msg (js ''type'') = JStr t"
    and "js_get msg (js ''data'') = data"
  shows "length socketReceiveMsgTypes = 9 \<and> distinct socketReceiveMsgTypes
    \<and> (t = INVALID_COMMUNICATION_ID \<longrightarrow>
         handleSocketOnMessage B raw s =
           Returned (loadOrCreateCommunication
             (s\<lparr>localStorage := (localStorage s)(LS_COMMUNICATION_ID_KEY := None)\<rparr>)))
    \<and> (t = UI_ERROR \<longrightarrow>
         handleSocketOnMessage B raw s =
           (if js_nullish data then Thrown TypeError s
            else Returned (dispatch (showSnackbar (js_get data (js ''message'')) SNACKBAR_ERROR) s)))
    \<and> (t = ERROR \<longrightarrow>
         handleSocketOnMessage B raw s =
           (if js_nullish data then Thrown TypeError s
            else if js_truthy (js_get data (js ''message''))
            then Returned (dispatch (showSnackbar (js_get data (js ''message'')) SNACKBAR_ERROR) s)
            else Returned s))
    \<and> (t = SYSTEM_CONFIG \<longrightarrow>
         handleSocketOnMessage B raw s =
           (if js_nullish data then Thrown TypeError s
            else case parseSocketConfig (js_get data (js ''config'')) of
                   Inl e \<Rightarrow> Thrown e s
                 | Inr cfg \<Rightarrow> Returned (dispatch (setConfig cfg) s)))
    \<and> (t = CLOSE_CONNECTION \<longrightarrow>
         handleSocketOnMessage B raw s =
           (if js_nullish data then Thrown TypeError s
            else Returned (dispatch (showSnackbar (js_get data (js ''message'')) SNACKBAR_ERROR) s)))
    \<and> (t = IS_BOT_CONNECTED \<longrightarrow>
         handleSocketOnMessage B raw s =
           (if js_nullish data then Thrown TypeError s
            else if js_truthy (js_get data (js ''message''))
            then Returned (dispatch (setBotConnectedStatus (js_get data (js ''value'')))
                   (dispatch (showSnackbar (js_get data (js ''message'')) SNACKBAR_INFO) s))
            else Returned (dispatch (setBotConnectedStatus (js_get data (js ''value''))) s)))
    \<and> (t = PING_STATE \<longrightarrow>
         handleSocketOnMessage B raw s =
           (if js_nullish data then Thrown TypeError s
            else Returned (dispatch (setBotConnectedStatus
                    (js_coalesce (js_get data (js ''is_bot_connected'')) (JBool False))) s)))
    \<and> (t = USER_INPUT \<longrightarrow>
         handleSocketOnMessage B raw s =
           (if js_truthy (js_get data (js ''text'')) then
              (case ToString B (js_get data (js ''text'')) of
                 Inl e \<Rightarrow> Thrown e s
               | Inr txt \<Rightarrow>
                   Returned (dispatch (showSnackbar (JStr (js ''User said: '' @ txt)) SNACKBAR_INFO) s))
            else if js_truthy (js_get data (js ''audio'')) then
              Returned (dispatch (showSnackbar
                (JStr (js ''User sent audio (forwarded to control panel)'')) SNACKBAR_INFO) s)
            else Returned s))
    \<and> (t = NEW_CONTROL_PANEL_DETECTED \<longrightarrow>
         handleSocketOnMessage B raw s =
           (if js_nullish data then Thrown TypeError s
            else Returned (dispatch (showSnackbar (js_get data (js ''message'')) SNACKBAR_ERROR) s)))
    \<and> (t \<notin> set socketReceiveMsgTypes \<longrightarrow>
         handleSocketOnMessage B raw s = Returned (dispatch doNothing s)
         \<and> dispatch doNothing s = s\<lparr>dispatched := dispatched s @ [doNothing]\<rparr>)"
proof -
  have r: "handleSocketOnMessage B raw s = routeMessage B (JStr t) data s"
    using handleSocketOnMessage_route [OF assms(1,2), of s] assms(3,4) by simp
  have other: "routeMessage B (JStr t) data s = Returned (dispatch doNothing s)"
    if "t \<notin> set socketReceiveMsgTypes"
    by (rule route_default) (use that in auto)
  show ?thesis
    unfolding r
    using other
    by (simp add: socketReceiveMsgTypes_nine route_INVALID_COMMUNICATION_ID route_UI_ERROR route_ERROR
        route_SYSTEM_CONFIG route_CLOSE_CONNECTION route_IS_BOT_CONNECTED route_PING_STATE
        route_USER_INPUT route_NEW_CONTROL_PANEL_DETECTED dispatch_doNothing)
qed

text \<open>
  The theorem at two messages: \<open>{"type":"HELLO","data":{}}\<close>, of no known type, only
  dispatches \<open>doNothing\<close>; \<open>{"type":"PING_STATE","data":{"is_bot_connected":true}}\<close>
  sets the bot-connected status.
\<close>

theorem handleSocketOnMessage_dispatches_on_type_witness:
  \<open>js ''HELLO'' \<notin> set socketReceiveMsgTypes
   \<and> handleSocketOnMessage
        (platform [(js ''{"type":"HELLO","data":{}}'',
           JObj [(js ''type'', JStr (js ''HELLO'')), (js ''data'', JObj [])])])
        (js ''{"type":"HELLO","data":{}}'') page0
      = Returned (page0\<lparr>dispatched := [doNothing]\<rparr>)
   \<and> handleSocketOnMessage
        (platform [(js ''{"type":"PING_STATE","data":{"is_bot_connected":true}}'',
           JObj [(js ''type'', JStr PING_STATE), (js ''data'', JObj [(js ''is_bot_connected'', JBool True)])])])
        (js ''{"type":"PING_STATE","data":{"is_bot_connected":true}}'') page0
      = Returned (dispatch (setBotConnectedStatus (JBool True)) page0)\<close>
proof -
  let ?raw = \<open>js ''{"type":"HELLO","data":{}}''\<close>
  let ?msg = "JObj [(js ''type'', JStr (js ''HELLO'')), (js ''data'', JObj [])]"
  let ?raw2 = \<open>js ''{"type":"PING_STATE","data":{"is_bot_connected":true}}''\<close>
  let ?msg2 = "JObj [(js ''type'', JStr PING_STATE), (js ''data'', JObj [(js ''is_bot_connected'', JBool True)])]"
  have n: "js ''HELLO'' \<notin> set socketReceiveMsgTypes"
    by (simp add: socketReceiveMsgTypes_def msgTypes_defs js_eq_iff)
  have a: "messageToJson (platform [(?raw, ?msg)]) ?raw = Inr ?msg"
    by (simp add: messageToJson_def platform_def)
  have c: "js_get ?msg (js ''type'') = JStr (js ''HELLO'')" "js_get ?msg (js ''data'') = JObj []"
    by (simp_all add: js_eq_iff)
  have a2: "messageToJson (platform [(?raw2, ?msg2)]) ?raw2 = Inr ?msg2"
    by (simp add: messageToJson_def platform_def)
  have c2: "js_get ?msg2 (js ''type'') = JStr PING_STATE"
    "js_get ?msg2 (js ''data'') = JObj [(js ''is_bot_connected'', JBool True)]"
    by (simp_all add: js_eq_iff)
  have "handleSocketOnMessage (platform [(?raw, ?msg)]) ?raw page0 = Returned (dispatch doNothing page0)"
    using handleSocketOnMessage_dispatches_on_type [OF a _ c, of page0] n by simp
  moreover have "handleSocketOnMessage (platform [(?raw2, ?msg2)]) ?raw2 page0
      = Returned (dispatch (setBotConnectedStatus (JBool True)) page0)"
    using handleSocketOnMessage_dispatches_on_type [OF a2 _ c2, of page0]
    by (simp add: js_coalesce_def)
  ultimately show ?thesis
    using n by (simp add: dispatch_def page0_def)
qed

section \<open>What each operation leaves unchanged\<close>

lemma dispatch_fields [simp]:
  "localStorage (dispatch a s) = localStorage s"
  "socket (dispatch a s) = socket s"
  "sent (dispatch a s) = sent s"
  "intervals (dispatch a s) = intervals s"
  "createCommunicationCalls (dispatch a s) = createCommunicationCalls s"
  "getControlPanelConfigCalls (dispatch a s) = getControlPanelConfigCalls s"
  "initializeWebSocketCalls (dispatch a s) = initializeWebSocketCalls s"
  "windows (dispatch a s) = windows s"
  "REACT_APP_BOT_URL (dispatch a s) = REACT_APP_BOT_URL s"
  "dispatched (dispatch a s) = dispatched s @ [a]"
  "store (dispatch a s) = communicationReducer a (store s)"
  by (simp_all add: dispatch_def)

lemma newlyDispatched_simps [simp]:
  "newlyDispatched s s = []"
  "dispatched s' = dispatched s @ as \<Longrightarrow> newlyDispatched s s' = as"
  by (simp_all add: newlyDispatched_def)

lemma newlyDispatched_dispatch [simp]:
  "newlyDispatched s (dispatch a s) = [a]"
  "newlyDispatched s (dispatch b (dispatch a s)) = [a, b]"
  "newlyDispatched s (dispatch c (dispatch b (dispatch a s))) = [a, b, c]"
  by (simp_all add: newlyDispatched_def)

lemma route_other_dispatched:
  assumes "type \<noteq> JStr INVALID_COMMUNICATION_ID"
  shows "\<exists>as. dispatched (after (routeMessage B type data s)) = dispatched s @ as
           \<and> statusWrites as = [] \<and> setLoading True \<notin> set as
           \<and> connectionStatus (store (after (routeMessage B type data s))) = connectionStatus (store s)"
  using assms by (simp add: routeMessage_def Let_def split: sum.split)

lemma route_other_frame:
  assumes "type \<noteq> JStr INVALID_COMMUNICATION_ID"
  shows "localStorage (after (routeMessage B type data s)) = localStorage s"
    "socket (after (routeMessage B type data s)) = socket s"
    "sent (after (routeMessage B type data s)) = sent s"
    "intervals (after (routeMessage B type data s)) = intervals s"
    "createCommunicationCalls (after (routeMessage B type data s)) = createCommunicationCalls s"
    "initializeWebSocketCalls (after (routeMessage B type data s)) = initializeWebSocketCalls s"
  using assms by (simp_all add: routeMessage_def Let_def split: sum.split)

lemma onMessage_untyped:
  "messageType B raw = None \<Longrightarrow> handleSocketOnMessage B raw s = Thrown TypeError s"
  by (auto simp: messageType_def handleSocketOnMessage_def messageToJson_def split: sum.splits if_splits)

lemma onMessage_typed:
  "messageType B raw = Some type \<Longrightarrow>
   \<exists>data. handleSocketOnMessage B raw s = routeMessage B type data s"
  by (auto simp: messageType_def handleSocketOnMessage_def split: sum.splits if_splits)

lemma loadOrCreateCommunication_no_stored_id:
  assumes "localStorage s LS_COMMUNICATION_ID_KEY = None \<or> localStorage s LS_COMMUNICATION_ID_KEY = Some []"
  shows "loadOrCreateCommunication s =
     createCommunication (dispatch (setConnectionStatus CONNECTING) (dispatch (setLoading True) s))"
  using assms by (auto simp: loadOrCreateCommunication_def Let_def)

lemma loadOrCreateCommunication_stored_id:
  assumes "localStorage s LS_COMMUNICATION_ID_KEY = Some cid" and "cid \<noteq> []"
  shows "loadOrCreateCommunication s =
     initAndHandleWebsocket cid (dispatch (setCommunicationId cid)
       (dispatch (setConnectionStatus CONNECTING) (dispatch (setLoading True) s)))"
  using assms by (simp add: loadOrCreateCommunication_def Let_def)

lemma createCommunication_fields [simp]:
  "localStorage (createCommunication s) = localStorage s"
  "socket (createCommunication s) = socket s"
  "sent (createCommunication s) = sent s"
  "intervals (createCommunication s) = intervals s"
  "createCommunicationCalls (createCommunication s) = Suc (createCommunicationCalls s)"
  "initializeWebSocketCalls (createCommunication s) = initializeWebSocketCalls s"
  "dispatched (createCommunication s) = dispatched s"
  "store (createCommunication s) = store s"
  by (simp_all add: createCommunication_def)

lemma initAndHandleWebsocket_fields [simp]:
  "localStorage (initAndHandleWebsocket cid s) = localStorage s"
  "socket (initAndHandleWebsocket cid s) = Some \<lparr>wsCommunicationId = cid, readyState = WS_CONNECTING\<rparr>"
  "sent (initAndHandleWebsocket cid s) = sent s"
  "intervals (initAndHandleWebsocket cid s) = intervals s"
  "createCommunicationCalls (initAndHandleWebsocket cid s) = createCommunicationCalls s"
  "initializeWebSocketCalls (initAndHandleWebsocket cid s) = initializeWebSocketCalls s @ [cid]"
  "dispatched (initAndHandleWebsocket cid s) = dispatched s"
  "store (initAndHandleWebsocket cid s) = store s"
  by (simp_all add: initAndHandleWebsocket_def)

lemma loadOrCreateCommunication_status:
  "connectionStatus (store (loadOrCreateCommunication s)) = CONNECTING"
  "statusWrites (newlyDispatched s (loadOrCreateCommunication s)) = [CONNECTING]"
  "take 2 (newlyDispatched s (loadOrCreateCommunication s)) = [setLoading True, setConnectionStatus CONNECTING]"
  by (simp_all add: loadOrCreateCommunication_def Let_def split: option.split)

lemma handleSocketMessageSend_fields [simp]:
  "localStorage (handleSocketMessageSend d s) = localStorage s"
  "socket (handleSocketMessageSend d s) = socket s"
  "intervals (handleSocketMessageSend d s) = intervals s"
  "createCommunicationCalls (handleSocketMessageSend d s) = createCommunicationCalls s"
  "initializeWebSocketCalls (handleSocketMessageSend d s) = initializeWebSocketCalls s"
  "dispatched (handleSocketMessageSend d s) = dispatched s"
  "store (handleSocketMessageSend d s) = store s"
  by (simp_all add: handleSocketMessageSend_def split: option.split)

lemma initPing_fields [simp]:
  "localStorage (initPing n s) = localStorage s"
  "socket (initPing n s) = socket s"
  "sent (initPing n s) = sent s"
  "intervals (initPing n s) = intervals s @ [(n, SendPing)]"
  "createCommunicationCalls (initPing n s) = createCommunicationCalls s"
  "initializeWebSocketCalls (initPing n s) = initializeWebSocketCalls s"
  "dispatched (initPing n s) = dispatched s"
  "store (initPing n s) = store s"
  by (simp_all add: initPing_def)

lemma runCallback_fields [simp]:
  "localStorage (runCallback c s) = localStorage s"
  "socket (runCallback c s) = socket s"
  "intervals (runCallback c s) = intervals s"
  "createCommunicationCalls (runCallback c s) = createCommunicationCalls s"
  "initializeWebSocketCalls (runCallback c s) = initializeWebSocketCalls s"
  "dispatched (runCallback c s) = dispatched s"
  "store (runCallback c s) = store s"
  by (cases c; simp)+

lemma onMessage_status:
  "statusWrites (newlyDispatched s (after (handleSocketOnMessage B raw s)))
     = (if messageType B raw = Some (JStr INVALID_COMMUNICATION_ID) then [CONNECTING] else [])"
  "connectionStatus (store (after (handleSocketOnMessage B raw s)))
     = (if messageType B raw = Some (JStr INVALID_COMMUNICATION_ID) then CONNECTING
        else connectionStatus (store s))"
proof -
  let ?s0 = "s\<lparr>localStorage := (localStorage s)(LS_COMMUNICATION_ID_KEY := None)\<rparr>"
  have d0: "newlyDispatched s (loadOrCreateCommunication ?s0) = newlyDispatched ?s0 (loadOrCreateCommunication ?s0)"
    by (simp add: newlyDispatched_def)
  show "statusWrites (newlyDispatched s (after (handleSocketOnMessage B raw s)))
     = (if messageType B raw = Some (JStr INVALID_COMMUNICATION_ID) then [CONNECTING] else [])"
  proof (cases "messageType B raw")
    case None
    then show ?thesis by (simp add: onMessage_untyped)
  next
    case (Some type)
    then obtain data where r: "handleSocketOnMessage B raw s = routeMessage B type data s"
      using onMessage_typed by blast
    show ?thesis
    proof (cases "type = JStr INVALID_COMMUNICATION_ID")
      case True
      then show ?thesis
        using Some r d0 by (simp add: route_INVALID_COMMUNICATION_ID loadOrCreateCommunication_status)
    next
      case False
      then show ?thesis
        using Some r route_other_dispatched [OF False, of B data s] by auto
    qed
  qed
  show "connectionStatus (store (after (handleSocketOnMessage B raw s)))
     = (if messageType B raw = Some (JStr INVALID_COMMUNICATION_ID) then CONNECTING
        else connectionStatus (store s))"
  proof (cases "messageType B raw")
    case None
    then show ?thesis by (simp add: onMessage_untyped)
  next
    case (Some type)
    then obtain data where r: "handleSocketOnMessage B raw s = routeMessage B type data s"
      using onMessage_typed by blast
    show ?thesis
    proof (cases "type = JStr INVALID_COMMUNICATION_ID")
      case True
      then show ?thesis
        using Some r by (simp add: route_INVALID_COMMUNICATION_ID loadOrCreateCommunication_status)
    next
      case False
      then show ?thesis
        using Some r route_other_dispatched [OF False, of B data s] by auto
    qed
  qed
qed

section \<open>Reconnection\<close>

text \<open>
  C2. The router calls \<open>loadOrCreateCommunication\<close> exactly on a message whose type is
  \<open>INVALID_COMMUNICATION_ID\<close>: it first removes the stored communication id from
  \<open>localStorage\<close>, so that the call issues one create-communication request (and opens no
  socket and starts no timer). On every other message (of another type, or one whose
  destructuring throws) nothing of a connection attempt happens; the same holds for the
  socket's error and close handlers and for the creation-failure handler, so nothing is
  retried.
\<close>

theorem reconnection_only_on_invalid_communication_id:
  "(messageType B raw = Some (JStr INVALID_COMMUNICATION_ID) \<longrightarrow>
      step B (Socket_onMessage raw) s =
        loadOrCreateCommunication (s\<lparr>localStorage := (localStorage s)(LS_COMMUNICATION_ID_KEY := None)\<rparr>)
      \<and> localStorage (step B (Socket_onMessage raw) s) LS_COMMUNICATION_ID_KEY = None
      \<and> createCommunicationCalls (step B (Socket_onMessage raw) s) = Suc (createCommunicationCalls s)
      \<and> initializeWebSocketCalls (step B (Socket_onMessage raw) s) = initializeWebSocketCalls s
      \<and> intervals (step B (Socket_onMessage raw) s) = intervals s
      \<and> newlyDispatched s (step B (Socket_onMessage raw) s)
          = [setLoading True, setConnectionStatus CONNECTING])
   \<and> (messageType B raw \<noteq> Some (JStr INVALID_COMMUNICATION_ID) \<longrightarrow>
      noReconnection s (step B (Socket_onMessage raw) s)
      \<and> localStorage (step B (Socket_onMessage raw) s) = localStorage s)
   \<and> noReconnection s (step B Socket_onError s)
   \<and> noReconnection s (step B Socket_onClose s)
   \<and> noReconnection s (step B (CreateCommunication_onFailure err) s)"
proof -
  let ?s0 = "s\<lparr>localStorage := (localStorage s)(LS_COMMUNICATION_ID_KEY := None)\<rparr>"
  have inv: "step B (Socket_onMessage raw) s = loadOrCreateCommunication ?s0"
    if "messageType B raw = Some (JStr INVALID_COMMUNICATION_ID)"
    using onMessage_typed [OF that, of s] by (auto simp: route_INVALID_COMMUNICATION_ID)
  have l: "loadOrCreateCommunication ?s0 =
      createCommunication (dispatch (setConnectionStatus CONNECTING) (dispatch (setLoading True) ?s0))"
    by (rule loadOrCreateCommunication_no_stored_id) simp
  have first: "localStorage (loadOrCreateCommunication ?s0) LS_COMMUNICATION_ID_KEY = None
      \<and> createCommunicationCalls (loadOrCreateCommunication ?s0) = Suc (createCommunicationCalls s)
      \<and> initializeWebSocketCalls (loadOrCreateCommunication ?s0) = initializeWebSocketCalls s
      \<and> intervals (loadOrCreateCommunication ?s0) = intervals s
      \<and> newlyDispatched s (loadOrCreateCommunication ?s0) = [setLoading True, setConnectionStatus CONNECTING]"
    unfolding l by simp
  have other: "noReconnection s (step B (Socket_onMessage raw) s)
      \<and> localStorage (step B (Socket_onMessage raw) s) = localStorage s"
    if h: "messageType B raw \<noteq> Some (JStr INVALID_COMMUNICATION_ID)"
  proof (cases "messageType B raw")
    case None
    then show ?thesis
      by (simp add: onMessage_untyped noReconnection_def)
  next
    case (Some type)
    then obtain data where r: "handleSocketOnMessage B raw s = routeMessage B type data s"
      using onMessage_typed by blast
    have t: "type \<noteq> JStr INVALID_COMMUNICATION_ID"
      using h Some by simp
    obtain as where as: "dispatched (after (routeMessage B type data s)) = dispatched s @ as"
      "statusWrites as = []" "setLoading True \<notin> set as"
      using route_other_dispatched [OF t] by blast
    have "setConnectionStatus CONNECTING \<notin> set as"
      using as(2) by (induction as rule: statusWrites.induct) auto
    then show ?thesis
      using as route_other_frame [OF t, of B data s] r
      by (simp add: noReconnection_def)
  qed
  have handlers: "noReconnection s (step B Socket_onError s)"
    "noReconnection s (step B Socket_onClose s)"
    "noReconnection s (step B (CreateCommunication_onFailure err) s)"
    by (simp_all add: noReconnection_def handleSocketOnError_def handleSocketOnClose_def
        loadOrCreateCommunicationFailure_def Let_def)
  show ?thesis
    using inv first other handlers by simp
qed

text \<open>
  The theorem on a page that has the id \<open>abc\<close> stored: the message
  \<open>{"type":"INVALID_COMMUNICATION_ID"}\<close> removes the id and issues the first
  create-communication request; the message \<open>{"type":"ERROR","data":{}}\<close> issues none.
\<close>

theorem reconnection_only_on_invalid_communication_id_witness:
  \<open>messageType
       (platform [(js ''{"type":"INVALID_COMMUNICATION_ID"}'',
                   JObj [(js ''type'', JStr INVALID_COMMUNICATION_ID)]),
                  (js ''{"type":"ERROR","data":{}}'',
                   JObj [(js ''type'', JStr ERROR), (js ''data'', JObj [])])])
       (js ''{"type":"INVALID_COMMUNICATION_ID"}'') = Some (JStr INVALID_COMMUNICATION_ID)
   \<and> localStorage (step
       (platform [(js ''{"type":"INVALID_COMMUNICATION_ID"}'',
                   JObj [(js ''type'', JStr INVALID_COMMUNICATION_ID)]),
                  (js ''{"type":"ERROR","data":{}}'',
                   JObj [(js ''type'', JStr ERROR), (js ''data'', JObj [])])])
       (Socket_onMessage (js ''{"type":"INVALID_COMMUNICATION_ID"}''))
       (page0\<lparr>localStorage := [LS_COMMUNICATION_ID_KEY \<mapsto> js ''abc'']\<rparr>)) LS_COMMUNICATION_ID_KEY = None
   \<and> createCommunicationCalls (step
       (platform [(js ''{"type":"INVALID_COMMUNICATION_ID"}'',
                   JObj [(js ''type'', JStr INVALID_COMMUNICATION_ID)]),
                  (js ''{"type":"ERROR","data":{}}'',
                   JObj [(js ''type'', JStr ERROR), (js ''data'', JObj [])])])
       (Socket_onMessage (js ''{"type":"INVALID_COMMUNICATION_ID"}''))
       (page0\<lparr>localStorage := [LS_COMMUNICATION_ID_KEY \<mapsto> js ''abc'']\<rparr>)) = 1
   \<and> messageType
       (platform [(js ''{"type":"INVALID_COMMUNICATION_ID"}'',
                   JObj [(js ''type'', JStr INVALID_COMMUNICATION_ID)]),
                  (js ''{"type":"ERROR","data":{}}'',
                   JObj [(js ''type'', JStr ERROR), (js ''data'', JObj [])])])
       (js ''{"type":"ERROR","data":{}}'') \<noteq> Some (JStr INVALID_COMMUNICATION_ID)
   \<and> createCommunicationCalls (step
       (platform [(js ''{"type":"INVALID_COMMUNICATION_ID"}'',
                   JObj [(js ''type'', JStr INVALID_COMMUNICATION_ID)]),
                  (js ''{"type":"ERROR","data":{}}'',
                   JObj [(js ''type'', JStr ERROR), (js ''data'', JObj [])])])
       (Socket_onMessage (js ''{"type":"ERROR","data":{}}''))
       (page0\<lparr>localStorage := [LS_COMMUNICATION_ID_KEY \<mapsto> js ''abc'']\<rparr>)) = 0\<close>
proof -
  let ?r1 = \<open>js ''{"type":"INVALID_COMMUNICATION_ID"}''\<close>
  let ?r2 = \<open>js ''{"type":"ERROR","data":{}}''\<close>
  let ?B = "platform [(?r1, JObj [(js ''type'', JStr INVALID_COMMUNICATION_ID)]),
                      (?r2, JObj [(js ''type'', JStr ERROR), (js ''data'', JObj [])])]"
  let ?s = "page0\<lparr>localStorage := [LS_COMMUNICATION_ID_KEY \<mapsto> js ''abc'']\<rparr>"
  have t1: "messageType ?B ?r1 = Some (JStr INVALID_COMMUNICATION_ID)"
    by (simp add: messageType_def messageToJson_def platform_def js_eq_iff)
  have t2: "messageType ?B ?r2 \<noteq> Some (JStr INVALID_COMMUNICATION_ID)"
    by (simp add: messageType_def messageToJson_def platform_def js_eq_iff msgTypes_defs)
  have c0: "createCommunicationCalls ?s = 0"
    by (simp add: page0_def)
  have A: "localStorage (step ?B (Socket_onMessage ?r1) ?s) LS_COMMUNICATION_ID_KEY = None"
    and B: "createCommunicationCalls (step ?B (Socket_onMessage ?r1) ?s) = Suc (createCommunicationCalls ?s)"
    using reconnection_only_on_invalid_communication_id [of ?B ?r1 ?s] t1 by blast+
  have C: "noReconnection ?s (step ?B (Socket_onMessage ?r2) ?s)"
    using reconnection_only_on_invalid_communication_id [of ?B ?r2 ?s] t2 by blast
  have D: "createCommunicationCalls (step ?B (Socket_onMessage ?r2) ?s) = createCommunicationCalls ?s"
    using C unfolding noReconnection_def by blast
  show ?thesis
    using t1 t2 A B D unfolding c0 by simp
qed

section \<open>The connection status\<close>

text \<open>
  C4. The connection status has three values, and every event assigns it as the claim
  says (\<open>claimedStatusWrites\<close>): the status values dispatched by an event are
  \<open>CONNECTING\<close> for \<open>loadOrCreateCommunication\<close>, \<open>CONNECTED\<close> for the open handler,
  \<open>NOT_CONNECTED\<close> for the error, close and creation-failure handlers, and none for any
  other event; the status of the store afterwards is the value assigned, or the one before
  when none is. \<open>loadOrCreateCommunication\<close> dispatches \<open>CONNECTING\<close> at its start, right
  after \<open>setLoading(true)\<close>.
\<close>

theorem connection_status_assignments:
  "statusWrites (newlyDispatched s (step B e s)) = claimedStatusWrites B e
   \<and> connectionStatus (store (step B e s))
       = (if claimedStatusWrites B e = [] then connectionStatus (store s)
          else last (claimedStatusWrites B e))
   \<and> take 2 (newlyDispatched s (loadOrCreateCommunication s))
       = [setLoading True, setConnectionStatus CONNECTING]
   \<and> (UNIV :: ConnectionStatus set) = {CONNECTED, CONNECTING, NOT_CONNECTED}"
proof -
  have univ: "(UNIV :: ConnectionStatus set) = {CONNECTED, CONNECTING, NOT_CONNECTED}"
    using ConnectionStatus.exhaust by auto
  have writes: "statusWrites (newlyDispatched s (step B e s)) = claimedStatusWrites B e"
  proof (cases e)
    case (GetControlPanelConfig_onSuccess data)
    then show ?thesis by (simp add: fetchControlPanelConfig_onSuccess_def Let_def newlyDispatched_def)
  next
    case (CreateCommunication_onSuccess data)
    then show ?thesis
      by (simp add: loadOrCreateCommunicationSuccess_def Let_def newlyDispatched_def split: option.split)
  next
    case (Socket_onMessage raw)
    then show ?thesis by (simp add: onMessage_status)
  qed (simp_all add: fetchControlPanelConfig_def loadOrCreateCommunication_status
        loadOrCreateCommunicationFailure_def addNewBot_def handleConnectionOnOpen_def
        handleSocketOnError_def handleSocketOnClose_def socketUpdateConfig_def sendTextToLLM_def
        Let_def split: option.split)
  have status: "connectionStatus (store (step B e s))
       = (if claimedStatusWrites B e = [] then connectionStatus (store s)
          else last (claimedStatusWrites B e))"
  proof (cases e)
    case (GetControlPanelConfig_onSuccess data)
    then show ?thesis by (simp add: fetchControlPanelConfig_onSuccess_def Let_def)
  next
    case (CreateCommunication_onSuccess data)
    then show ?thesis
      by (simp add: loadOrCreateCommunicationSuccess_def Let_def split: option.split)
  next
    case (Socket_onMessage raw)
    then show ?thesis by (simp add: onMessage_status)
  qed (simp_all add: fetchControlPanelConfig_def loadOrCreateCommunication_status
        loadOrCreateCommunicationFailure_def addNewBot_def handleConnectionOnOpen_def
        handleSocketOnError_def handleSocketOnClose_def socketUpdateConfig_def sendTextToLLM_def
        Let_def split: option.split)
  show ?thesis
    using univ writes status by (simp add: loadOrCreateCommunication_status)
qed

text \<open>
  The theorem on the page \<open>page0\<close>: loading a communication gives \<open>CONNECTING\<close>, the open
  event gives \<open>CONNECTED\<close>, a close event after it gives \<open>NOT_CONNECTED\<close>, and sending a
  text after the open event leaves \<open>CONNECTED\<close>.
\<close>

theorem connection_status_assignments_witness:
  "connectionStatus (store (step (platform []) Dispatch_loadOrCreateCommunication page0)) = CONNECTING
   \<and> connectionStatus (store (step (platform []) Socket_onOpen page0)) = CONNECTED
   \<and> statusWrites (newlyDispatched page0 (step (platform []) Socket_onOpen page0)) = [CONNECTED]
   \<and> connectionStatus (store (step (platform []) Socket_onClose
         (step (platform []) Socket_onOpen page0))) = NOT_CONNECTED
   \<and> connectionStatus (store (step (platform []) (Dispatch_sendTextToLLM (js ''hello''))
         (step (platform []) Socket_onOpen page0))) = CONNECTED"
  using connection_status_assignments [of page0 "platform []" Dispatch_loadOrCreateCommunication]
    connection_status_assignments [of page0 "platform []" Socket_onOpen]
    connection_status_assignments [of "step (platform []) Socket_onOpen page0" "platform []" Socket_onClose]
    connection_status_assignments [of "step (platform []) Socket_onOpen page0" "platform []"
      "Dispatch_sendTextToLLM (js ''hello'')"]
  by simp

section \<open>Sending, timers and trimming\<close>

lemma loadOrCreateCommunication_frame [simp]:
  "sent (loadOrCreateCommunication s) = sent s"
  "intervals (loadOrCreateCommunication s) = intervals s"
  "localStorage (loadOrCreateCommunication s) = localStorage s"
  by (simp_all add: loadOrCreateCommunication_def Let_def split: option.split)

lemma onMessage_frame [simp]:
  "sent (after (handleSocketOnMessage B raw s)) = sent s"
  "intervals (after (handleSocketOnMessage B raw s)) = intervals s"
proof -
  have "sent (after (handleSocketOnMessage B raw s)) = sent s
      \<and> intervals (after (handleSocketOnMessage B raw s)) = intervals s"
  proof (cases "messageType B raw")
    case None
    then show ?thesis by (simp add: onMessage_untyped)
  next
    case (Some type)
    then obtain data where r: "handleSocketOnMessage B raw s = routeMessage B type data s"
      using onMessage_typed by blast
    show ?thesis
    proof (cases "type = JStr INVALID_COMMUNICATION_ID")
      case True
      then show ?thesis using r by (simp add: route_INVALID_COMMUNICATION_ID)
    next
      case False
      then show ?thesis using r route_other_frame [OF False, of B data s] by simp
    qed
  qed
  then show "sent (after (handleSocketOnMessage B raw s)) = sent s"
    and "intervals (after (handleSocketOnMessage B raw s)) = intervals s"
    by simp_all
qed

lemma handleSocketMessageSend_socketOpen:
  "handleSocketMessageSend d s =
     (if socketOpen s then s\<lparr>sent := sent s @ [JSON_stringify d]\<rparr> else s)"
proof (cases "socket s")
  case None
  then show ?thesis by (simp add: handleSocketMessageSend_def socketOpen_def)
next
  case (Some ws)
  then show ?thesis
    by (cases "readyState ws") (simp_all add: handleSocketMessageSend_def socketOpen_def)
qed

lemma sent_handleSocketMessageSend:
  "sent (handleSocketMessageSend d s) = (if socketOpen s then sent s @ [JSON_stringify d] else sent s)"
  by (simp add: handleSocketMessageSend_socketOpen)

lemma step_sent:
  "sent (step B e s) = sent s \<or> (socketOpen s \<and> (\<exists>d. sent (step B e s) = sent s @ [JSON_stringify d]))"
proof (cases e)
  case (GetControlPanelConfig_onSuccess data)
  then show ?thesis by (simp add: fetchControlPanelConfig_onSuccess_def Let_def)
next
  case (CreateCommunication_onSuccess data)
  then show ?thesis by (simp add: loadOrCreateCommunicationSuccess_def Let_def split: option.split)
next
  case (Socket_readyState rs)
  then show ?thesis by (simp split: option.split)
next
  case (Dispatch_socketUpdateConfig cfg)
  then show ?thesis by (simp add: socketUpdateConfig_def sent_handleSocketMessageSend)
next
  case (Dispatch_sendTextToLLM msg)
  then show ?thesis by (simp add: sendTextToLLM_def Let_def sent_handleSocketMessageSend)
next
  case (Interval_fires i)
  then show ?thesis
    by (cases "snd (intervals s ! i)") (simp add: sent_handleSocketMessageSend)
qed (simp_all add: fetchControlPanelConfig_def loadOrCreateCommunicationFailure_def addNewBot_def
      handleConnectionOnOpen_def Let_def)

lemma step_intervals:
  "intervals (step B e s) = (if e = Socket_onOpen then intervals s @ [(5000, SendPing)] else intervals s)"
proof (cases e)
  case (GetControlPanelConfig_onSuccess data)
  then show ?thesis by (simp add: fetchControlPanelConfig_onSuccess_def Let_def)
next
  case (CreateCommunication_onSuccess data)
  then show ?thesis by (simp add: loadOrCreateCommunicationSuccess_def Let_def split: option.split)
next
  case (Socket_readyState rs)
  then show ?thesis by (simp split: option.split)
qed (simp_all add: fetchControlPanelConfig_def loadOrCreateCommunicationFailure_def addNewBot_def
      handleConnectionOnOpen_def socketUpdateConfig_def sendTextToLLM_def Let_def)

lemma run_intervals:
  "intervals (run B es s) = intervals s @ replicate (count_list es Socket_onOpen) (5000, SendPing)"
proof (induction es arbitrary: s)
  case Nil
  then show ?case by simp
next
  case (Cons e es)
  then show ?case
    by (simp add: step_intervals replicate_app_Cons_same)
qed

lemma js_trim_Nil_iff: "js_trim s = [] \<longleftrightarrow> (\<forall>c \<in> set s. js_whitespace c)"
proof -
  have "js_trim s = [] \<longleftrightarrow> (\<forall>c \<in> set (dropWhile js_whitespace s). js_whitespace c)"
    by (simp add: js_trim_def dropWhile_eq_Nil_conv)
  also have "\<dots> \<longleftrightarrow> dropWhile js_whitespace s = []"
  proof
    assume a: "\<forall>c \<in> set (dropWhile js_whitespace s). js_whitespace c"
    show "dropWhile js_whitespace s = []"
    proof (rule ccontr)
      assume n: "dropWhile js_whitespace s \<noteq> []"
      then have "\<not> js_whitespace (hd (dropWhile js_whitespace s))"
        by (rule hd_dropWhile)
      moreover have "hd (dropWhile js_whitespace s) \<in> set (dropWhile js_whitespace s)"
        using n by simp
      ultimately show False using a by blast
    qed
  next
    assume "dropWhile js_whitespace s = []"
    then show "\<forall>c \<in> set (dropWhile js_whitespace s). js_whitespace c"
      by (simp only: list.set ball_empty)
  qed
  also have "\<dots> \<longleftrightarrow> (\<forall>c \<in> set s. js_whitespace c)"
    by (simp add: dropWhile_eq_Nil_conv)
  finally show ?thesis .
qed

section \<open>Outbound messages\<close>

text \<open>
  C8. \<open>handleSocketMessageSend\<close> hands the serialised payload to the socket exactly when
  the module's socket exists and its ready state is none of CONNECTING, CLOSING and
  CLOSED, that is, when it is OPEN; otherwise it returns the state unchanged. Every event
  of the module either leaves the sent frames as they were, or the socket was open and
  the frames grew by what one call of \<open>handleSocketMessageSend\<close> sends; so with a socket
  that is not open nothing is ever sent. The configuration update and the ping are such
  calls.
\<close>

theorem socket_writes_only_when_open:
  "handleSocketMessageSend d s =
     (if socketOpen s then s\<lparr>sent := sent s @ [JSON_stringify d]\<rparr> else s)
   \<and> (socketOpen s \<longleftrightarrow> (\<exists>ws. socket s = Some ws \<and> readyState ws \<noteq> WS_CONNECTING
          \<and> readyState ws \<noteq> WS_CLOSING \<and> readyState ws \<noteq> WS_CLOSED))
   \<and> (sent (step B e s) = sent s
        \<or> (socketOpen s \<and> (\<exists>d'. sent (step B e s) = sent (handleSocketMessageSend d' s))))
   \<and> (\<not> socketOpen s \<longrightarrow> sent (step B e s) = sent s)
   \<and> step B (Dispatch_socketUpdateConfig cfg) s =
       dispatch doNothing (handleSocketMessageSend
         (JObj [(js ''type'', JStr UPDATE_CONFIG),
                (js ''data'', JObj [(js ''config'', makeSocketConfig cfg)])]) s)
   \<and> (i < length (intervals s) \<longrightarrow>
        step B (Interval_fires i) s = handleSocketMessageSend (JObj [(js ''type'', JStr PING)]) s)"
proof -
  have open_iff: "socketOpen s \<longleftrightarrow> (\<exists>ws. socket s = Some ws \<and> readyState ws \<noteq> WS_CONNECTING
          \<and> readyState ws \<noteq> WS_CLOSING \<and> readyState ws \<noteq> WS_CLOSED)"
  proof (cases "socket s")
    case None
    then show ?thesis by (simp add: socketOpen_def)
  next
    case (Some ws)
    then show ?thesis by (cases "readyState ws") (simp_all add: socketOpen_def)
  qed
  have through: "sent (step B e s) = sent s
        \<or> (socketOpen s \<and> (\<exists>d'. sent (step B e s) = sent (handleSocketMessageSend d' s)))"
    using step_sent [of B e s] by (auto simp: sent_handleSocketMessageSend)
  have closed: "\<not> socketOpen s \<longrightarrow> sent (step B e s) = sent s"
    using step_sent [of B e s] by blast
  have upd: "step B (Dispatch_socketUpdateConfig cfg) s =
       dispatch doNothing (handleSocketMessageSend
         (JObj [(js ''type'', JStr UPDATE_CONFIG),
                (js ''data'', JObj [(js ''config'', makeSocketConfig cfg)])]) s)"
    by (simp add: socketUpdateConfig_def)
  have ping: "i < length (intervals s) \<longrightarrow>
        step B (Interval_fires i) s = handleSocketMessageSend (JObj [(js ''type'', JStr PING)]) s"
    by (cases "snd (intervals s ! i)") simp
  show ?thesis
    using handleSocketMessageSend_socketOpen [of d s] open_iff through closed upd ping by blast
qed

text \<open>
  The theorem on two pages: with a socket that is CLOSING, sending a text sends no frame;
  with a socket that is OPEN, the ping is sent.
\<close>

theorem socket_writes_only_when_open_witness:
  "\<not> socketOpen (page0\<lparr>socket := Some \<lparr>wsCommunicationId = js ''abc'', readyState = WS_CLOSING\<rparr>\<rparr>)
   \<and> sent (step (platform []) (Dispatch_sendTextToLLM (js ''hello''))
        (page0\<lparr>socket := Some \<lparr>wsCommunicationId = js ''abc'', readyState = WS_CLOSING\<rparr>\<rparr>)) = []
   \<and> socketOpen (page0\<lparr>socket := Some \<lparr>wsCommunicationId = js ''abc'', readyState = WS_OPEN\<rparr>\<rparr>)
   \<and> sent (handleSocketMessageSend (JObj [(js ''type'', JStr PING)])
        (page0\<lparr>socket := Some \<lparr>wsCommunicationId = js ''abc'', readyState = WS_OPEN\<rparr>\<rparr>))
      = [JSON_stringify (JObj [(js ''type'', JStr PING)])]"
proof -
  let ?c = "page0\<lparr>socket := Some \<lparr>wsCommunicationId = js ''abc'', readyState = WS_CLOSING\<rparr>\<rparr>"
  let ?o = "page0\<lparr>socket := Some \<lparr>wsCommunicationId = js ''abc'', readyState = WS_OPEN\<rparr>\<rparr>"
  have c: "\<not> socketOpen ?c" and o: "socketOpen ?o"
    by (simp_all add: socketOpen_def)
  have "sent (step (platform []) (Dispatch_sendTextToLLM (js ''hello'')) ?c) = sent ?c"
    using socket_writes_only_when_open [of _ ?c "platform []" "Dispatch_sendTextToLLM (js ''hello'')"] c
    by blast
  moreover have "handleSocketMessageSend (JObj [(js ''type'', JStr PING)]) ?o
      = ?o\<lparr>sent := sent ?o @ [JSON_stringify (JObj [(js ''type'', JStr PING)])]\<rparr>"
    using socket_writes_only_when_open [of "JObj [(js ''type'', JStr PING)]" ?o] o by simp
  ultimately show ?thesis
    using c o by (simp add: page0_def)
qed

section \<open>The heartbeat\<close>

text \<open>
  C7. Each open event starts one interval timer of 5000 milliseconds (\<open>initPing\<close> adds
  the timer it is asked for and nothing else). When a timer fires, its callback attempts
  to send \<open>{type: PING}\<close> through \<open>handleSocketMessageSend\<close>: on an open socket the
  frame of that message is appended to the frames sent and nothing else changes, on any
  other socket the page stays as it is. No other event starts a timer and none cancels
  one, so after any run of events the timers are those from before followed by one such
  timer for each open event of the run.
\<close>

theorem heartbeat_intervals:
  "intervals (step B Socket_onOpen s) = intervals s @ [(5000, SendPing)]
   \<and> (e \<noteq> Socket_onOpen \<longrightarrow> intervals (step B e s) = intervals s)
   \<and> intervals (run B es s) = intervals s @ replicate (count_list es Socket_onOpen) (5000, SendPing)
   \<and> (i < length (intervals s) \<longrightarrow>
        step B (Interval_fires i) s = handleSocketMessageSend (JObj [(js ''type'', JStr PING)]) s)
   \<and> (i < length (intervals s) \<longrightarrow>
        sent (step B (Interval_fires i) s) =
          (if socketOpen s then sent s @ [JSON_stringify (JObj [(js ''type'', JStr PING)])]
           else sent s))
   \<and> (i < length (intervals s) \<and> socketOpen s \<longrightarrow>
        step B (Interval_fires i) s =
          s\<lparr>sent := sent s @ [JSON_stringify (JObj [(js ''type'', JStr PING)])]\<rparr>)
   \<and> (i < length (intervals s) \<and> \<not> socketOpen s \<longrightarrow> step B (Interval_fires i) s = s)
   \<and> initPing n s = s\<lparr>intervals := intervals s @ [(n, SendPing)]\<rparr>
   \<and> step B Socket_onOpen s = dispatch (setConnectionStatus CONNECTED) (initPing 5000 s)"
proof -
  have fire: "i < length (intervals s) \<longrightarrow>
        step B (Interval_fires i) s = handleSocketMessageSend (JObj [(js ''type'', JStr PING)]) s"
    by (cases "snd (intervals s ! i)") simp
  have frames: "i < length (intervals s) \<longrightarrow>
        sent (step B (Interval_fires i) s) =
          (if socketOpen s then sent s @ [JSON_stringify (JObj [(js ''type'', JStr PING)])]
           else sent s)"
    using fire by (simp add: sent_handleSocketMessageSend)
  have opened: "i < length (intervals s) \<and> socketOpen s \<longrightarrow>
        step B (Interval_fires i) s =
          s\<lparr>sent := sent s @ [JSON_stringify (JObj [(js ''type'', JStr PING)])]\<rparr>"
    using fire by (simp add: handleSocketMessageSend_socketOpen)
  have closed: "i < length (intervals s) \<and> \<not> socketOpen s \<longrightarrow> step B (Interval_fires i) s = s"
    using fire by (simp add: handleSocketMessageSend_socketOpen)
  have start: "initPing n s = s\<lparr>intervals := intervals s @ [(n, SendPing)]\<rparr>"
    by (simp add: initPing_def)
  have handler: "step B Socket_onOpen s = dispatch (setConnectionStatus CONNECTED) (initPing 5000 s)"
    by (simp add: handleConnectionOnOpen_def)
  show ?thesis
    using step_intervals [of B Socket_onOpen s] step_intervals [of B e s] run_intervals [of B es s]
      fire frames opened closed start handler
    by simp
qed

text \<open>
  The theorem on three runs. A run with two open events from \<open>page0\<close> ends with two
  heartbeat timers. When the timer of the first open event fires while the module has no
  socket, nothing is sent. On a page that has the id \<open>abc\<close> stored, loading the
  communication opens the socket, the browser moves it to OPEN and fires the open event,
  and the first firing of the timer then sends exactly the frame of \<open>{type: PING}\<close>.
\<close>

theorem heartbeat_intervals_witness:
  "intervals (run (platform [])
      [Socket_onOpen, Socket_onClose, Dispatch_loadOrCreateCommunication, Socket_onOpen] page0)
     = [(5000, SendPing), (5000, SendPing)]
   \<and> (0::nat) < length (intervals (step (platform []) Socket_onOpen page0))
   \<and> step (platform []) (Interval_fires 0) (step (platform []) Socket_onOpen page0)
       = step (platform []) Socket_onOpen page0
   \<and> socketOpen (run (platform [])
        [Dispatch_loadOrCreateCommunication, Socket_readyState WS_OPEN, Socket_onOpen]
        (page0\<lparr>localStorage := [LS_COMMUNICATION_ID_KEY \<mapsto> js ''abc'']\<rparr>))
   \<and> intervals (run (platform [])
        [Dispatch_loadOrCreateCommunication, Socket_readyState WS_OPEN, Socket_onOpen]
        (page0\<lparr>localStorage := [LS_COMMUNICATION_ID_KEY \<mapsto> js ''abc'']\<rparr>)) = [(5000, SendPing)]
   \<and> sent (run (platform [])
        [Dispatch_loadOrCreateCommunication, Socket_readyState WS_OPEN, Socket_onOpen]
        (page0\<lparr>localStorage := [LS_COMMUNICATION_ID_KEY \<mapsto> js ''abc'']\<rparr>)) = []
   \<and> sent (step (platform []) (Interval_fires 0) (run (platform [])
        [Dispatch_loadOrCreateCommunication, Socket_readyState WS_OPEN, Socket_onOpen]
        (page0\<lparr>localStorage := [LS_COMMUNICATION_ID_KEY \<mapsto> js ''abc'']\<rparr>)))
       = [JSON_stringify (JObj [(js ''type'', JStr PING)])]"
proof -
  let ?s = "step (platform []) Socket_onOpen page0"
  let ?a = "page0\<lparr>localStorage := [LS_COMMUNICATION_ID_KEY \<mapsto> js ''abc'']\<rparr>"
  let ?o = "run (platform [])
        [Dispatch_loadOrCreateCommunication, Socket_readyState WS_OPEN, Socket_onOpen] ?a"
  have pos: "(0::nat) < length (intervals ?s)"
    by (simp add: handleConnectionOnOpen_def)
  have closed: "\<not> socketOpen ?s"
    by (simp add: handleConnectionOnOpen_def socketOpen_def page0_def)
  have "step (platform []) (Interval_fires 0) ?s
      = handleSocketMessageSend (JObj [(js ''type'', JStr PING)]) ?s"
    using heartbeat_intervals [of "platform []" ?s Socket_onClose "[]" 0] pos by blast
  then have fire: "step (platform []) (Interval_fires 0) ?s = ?s"
    using closed by (simp only: handleSocketMessageSend_socketOpen if_False)
  have "intervals (run (platform [])
      [Socket_onOpen, Socket_onClose, Dispatch_loadOrCreateCommunication, Socket_onOpen] page0)
     = intervals page0 @ replicate (count_list
         [Socket_onOpen, Socket_onClose, Dispatch_loadOrCreateCommunication, Socket_onOpen] Socket_onOpen)
         (5000, SendPing)"
    using heartbeat_intervals [of "platform []" page0 Socket_onClose
        "[Socket_onOpen, Socket_onClose, Dispatch_loadOrCreateCommunication, Socket_onOpen]" 0]
    by blast
  then have two: "intervals (run (platform [])
      [Socket_onOpen, Socket_onClose, Dispatch_loadOrCreateCommunication, Socket_onOpen] page0)
     = [(5000, SendPing), (5000, SendPing)]"
    by (simp add: page0_def numeral_2_eq_2)
  have stored: "localStorage ?a LS_COMMUNICATION_ID_KEY = Some (js ''abc'')" "js ''abc'' \<noteq> []"
    by (simp_all add: js_Nil_iff)
  have load: "loadOrCreateCommunication ?a =
      initAndHandleWebsocket (js ''abc'') (dispatch (setCommunicationId (js ''abc''))
        (dispatch (setConnectionStatus CONNECTING) (dispatch (setLoading True) ?a)))"
    by (simp add: loadOrCreateCommunication_stored_id [OF stored])
  have o_open: "socketOpen ?o"
    by (simp add: load handleConnectionOnOpen_def socketOpen_def)
  have a0: "intervals ?a = []" "sent ?a = []"
    by (simp_all add: page0_def)
  have "intervals ?o = intervals ?a @ [(5000, SendPing)]"
    by (simp add: load handleConnectionOnOpen_def)
  then have o_int: "intervals ?o = [(5000, SendPing)]"
    by (simp only: a0 append_Nil)
  have "sent ?o = sent ?a"
    by (simp add: load handleConnectionOnOpen_def)
  then have o_sent: "sent ?o = []"
    by (simp only: a0)
  have o_pos: "(0::nat) < length (intervals ?o)"
    unfolding o_int by simp
  have "sent (step (platform []) (Interval_fires 0) ?o) =
          (if socketOpen ?o then sent ?o @ [JSON_stringify (JObj [(js ''type'', JStr PING)])]
           else sent ?o)"
    using heartbeat_intervals [of "platform []" ?o Socket_onClose "[]" 0] o_pos by blast
  then have ping: "sent (step (platform []) (Interval_fires 0) ?o)
      = [JSON_stringify (JObj [(js ''type'', JStr PING)])]"
    by (simp only: o_open o_sent if_True append_Nil)
  show ?thesis
    using two pos fire o_open o_int o_sent ping by blast
qed

section \<open>Sending a text to the model\<close>

text \<open>
  C10. For a text that is empty or consists only of white space (the code units that
  \<open>trim\<close> strips), \<open>sendTextToLLM\<close> dispatches the error snackbar
  \<open>Please provide text to send to the AI\<close> and sends nothing. For every other text it calls
  \<open>handleSocketMessageSend\<close> with \<open>{type: SEND_TEXT, data: {text}}\<close>, the text being the
  untrimmed argument (sent when the socket is open), and dispatches the info snackbar
  \<open>Sent text to AI\<close>.
\<close>

theorem sendTextToLLM_rejects_blank:
  "((\<forall>c \<in> set txt0. js_whitespace c) \<longrightarrow>
      sendTextToLLM txt0 s =
        dispatch (showSnackbar (JStr (js ''Please provide text to send to the AI'')) SNACKBAR_ERROR) s
      \<and> sent (sendTextToLLM txt0 s) = sent s)
   \<and> (\<not> (\<forall>c \<in> set txt0. js_whitespace c) \<longrightarrow>
      sendTextToLLM txt0 s =
        dispatch (showSnackbar (JStr (js ''Sent text to AI'')) SNACKBAR_INFO)
          (handleSocketMessageSend
            (JObj [(js ''type'', JStr SEND_TEXT), (js ''data'', JObj [(js ''text'', JStr txt0)])]) s)
      \<and> sent (sendTextToLLM txt0 s) =
          (if socketOpen s
           then sent s @ [JSON_stringify
             (JObj [(js ''type'', JStr SEND_TEXT), (js ''data'', JObj [(js ''text'', JStr txt0)])])]
           else sent s))"
proof -
  have blank: "(txt0 = [] \<or> js_trim txt0 = []) \<longleftrightarrow> (\<forall>c \<in> set txt0. js_whitespace c)"
    by (auto simp: js_trim_Nil_iff)
  have rejected: "sendTextToLLM txt0 s =
        dispatch (showSnackbar (JStr (js ''Please provide text to send to the AI'')) SNACKBAR_ERROR) s
      \<and> sent (sendTextToLLM txt0 s) = sent s"
    if "\<forall>c \<in> set txt0. js_whitespace c"
  proof -
    have "txt0 = [] \<or> js_trim txt0 = []" using blank that by blast
    then show ?thesis by (simp add: sendTextToLLM_def)
  qed
  have accepted: "sendTextToLLM txt0 s =
        dispatch (showSnackbar (JStr (js ''Sent text to AI'')) SNACKBAR_INFO)
          (handleSocketMessageSend
            (JObj [(js ''type'', JStr SEND_TEXT), (js ''data'', JObj [(js ''text'', JStr txt0)])]) s)
      \<and> sent (sendTextToLLM txt0 s) =
          (if socketOpen s
           then sent s @ [JSON_stringify
             (JObj [(js ''type'', JStr SEND_TEXT), (js ''data'', JObj [(js ''text'', JStr txt0)])])]
           else sent s)"
    if "\<not> (\<forall>c \<in> set txt0. js_whitespace c)"
  proof -
    have "\<not> (txt0 = [] \<or> js_trim txt0 = [])" using blank that by blast
    then show ?thesis by (simp add: sendTextToLLM_def Let_def sent_handleSocketMessageSend)
  qed
  show ?thesis
    using rejected accepted by blast
qed

text \<open>
  The theorem at the text of a space, a tab and a no-break space, which is rejected, and
  at the text \<open>hi\<close> with a space on either side, which is sent untrimmed on an open socket.
\<close>

theorem sendTextToLLM_rejects_blank_witness:
  "sendTextToLLM [0x20, 0x09, 0xA0] page0 =
       dispatch (showSnackbar (JStr (js ''Please provide text to send to the AI'')) SNACKBAR_ERROR) page0
   \<and> sent (sendTextToLLM [0x20, 0x09, 0xA0] page0) = []
   \<and> sent (sendTextToLLM (js '' hi '')
        (page0\<lparr>socket := Some \<lparr>wsCommunicationId = js ''abc'', readyState = WS_OPEN\<rparr>\<rparr>))
      = [JSON_stringify
          (JObj [(js ''type'', JStr SEND_TEXT), (js ''data'', JObj [(js ''text'', JStr (js '' hi ''))])])]"
proof -
  let ?o = "page0\<lparr>socket := Some \<lparr>wsCommunicationId = js ''abc'', readyState = WS_OPEN\<rparr>\<rparr>"
  have b: "\<forall>c \<in> set [0x20, 0x09, 0xA0 :: 16 word]. js_whitespace c"
    by (simp add: js_whitespace_def)
  have n: "\<not> (\<forall>c \<in> set (js '' hi ''). js_whitespace c)"
    by (simp add: js_def js_whitespace_def)
  have o: "socketOpen ?o"
    by (simp add: socketOpen_def)
  have "sendTextToLLM [0x20, 0x09, 0xA0] page0 =
       dispatch (showSnackbar (JStr (js ''Please provide text to send to the AI'')) SNACKBAR_ERROR) page0
     \<and> sent (sendTextToLLM [0x20, 0x09, 0xA0] page0) = sent page0"
    using sendTextToLLM_rejects_blank [of "[0x20, 0x09, 0xA0]" page0] b by blast
  moreover have "sent (sendTextToLLM (js '' hi '') ?o) =
          (if socketOpen ?o
           then sent ?o @ [JSON_stringify
             (JObj [(js ''type'', JStr SEND_TEXT), (js ''data'', JObj [(js ''text'', JStr (js '' hi ''))])])]
           else sent ?o)"
    using sendTextToLLM_rejects_blank [of "js '' hi ''" ?o] n by blast
  ultimately show ?thesis
    using o by (simp add: page0_def)
qed

section \<open>What each operation reads of the local storage\<close>

lemma dispatch_localStorage_update:
  "dispatch a (s\<lparr>localStorage := ls\<rparr>) = (dispatch a s)\<lparr>localStorage := ls\<rparr>"
  by (simp add: dispatch_def)

lemma handleSocketMessageSend_localStorage_update:
  "handleSocketMessageSend d (s\<lparr>localStorage := ls\<rparr>) = (handleSocketMessageSend d s)\<lparr>localStorage := ls\<rparr>"
  by (simp add: handleSocketMessageSend_def split: option.split)

lemma loadOrCreateCommunication_reads_key:
  assumes "ls LS_COMMUNICATION_ID_KEY = localStorage s LS_COMMUNICATION_ID_KEY"
  shows "loadOrCreateCommunication (s\<lparr>localStorage := ls\<rparr>)
           = (loadOrCreateCommunication s)\<lparr>localStorage := ls\<rparr>"
  using assms
  by (simp add: loadOrCreateCommunication_def Let_def dispatch_def createCommunication_def
      initAndHandleWebsocket_def split: option.split)

lemma route_other_update:
  assumes "type \<noteq> JStr INVALID_COMMUNICATION_ID"
  shows "routeMessage B type data (s\<lparr>localStorage := ls\<rparr>)
         = (case routeMessage B type data s of
              Returned t \<Rightarrow> Returned (t\<lparr>localStorage := ls\<rparr>)
            | Thrown e t \<Rightarrow> Thrown e (t\<lparr>localStorage := ls\<rparr>))"
  unfolding routeMessage_def Let_def dispatch_localStorage_update
  using assms
  by (simp split: sum.split)

lemma route_localStorage_update:
  "(after (routeMessage B type data (s\<lparr>localStorage := ls\<rparr>)))\<lparr>localStorage := l0\<rparr>
     = (after (routeMessage B type data s))\<lparr>localStorage := l0\<rparr>"
proof (cases "type = JStr INVALID_COMMUNICATION_ID")
  case True
  let ?t = "s\<lparr>localStorage := (localStorage s)(LS_COMMUNICATION_ID_KEY := None)\<rparr>"
  have "loadOrCreateCommunication (?t\<lparr>localStorage := ls(LS_COMMUNICATION_ID_KEY := None)\<rparr>)
      = (loadOrCreateCommunication ?t)\<lparr>localStorage := ls(LS_COMMUNICATION_ID_KEY := None)\<rparr>"
    by (rule loadOrCreateCommunication_reads_key) simp
  then show ?thesis
    using True by (simp add: route_INVALID_COMMUNICATION_ID)
next
  case False
  show ?thesis
    unfolding route_other_update [OF False]
    by (cases "routeMessage B type data s") simp_all
qed

lemma step_reads_key:
  assumes "ls LS_COMMUNICATION_ID_KEY = localStorage s LS_COMMUNICATION_ID_KEY"
  shows "(step B e (s\<lparr>localStorage := ls\<rparr>))\<lparr>localStorage := l0\<rparr> = (step B e s)\<lparr>localStorage := l0\<rparr>"
proof (cases e)
  case Dispatch_fetchControlPanelConfig
  then show ?thesis by (simp add: fetchControlPanelConfig_def)
next
  case (GetControlPanelConfig_onSuccess data)
  then show ?thesis
    by (simp add: fetchControlPanelConfig_onSuccess_def Let_def dispatch_localStorage_update)
next
  case Dispatch_loadOrCreateCommunication
  then show ?thesis by (simp add: loadOrCreateCommunication_reads_key assms)
next
  case (CreateCommunication_onSuccess data)
  then show ?thesis
    by (cases data)
      (simp_all add: loadOrCreateCommunicationSuccess_def Let_def dispatch_def initAndHandleWebsocket_def)
next
  case (CreateCommunication_onFailure err)
  then show ?thesis
    by (simp add: loadOrCreateCommunicationFailure_def Let_def dispatch_localStorage_update)
next
  case (Dispatch_addNewBot cid)
  then show ?thesis by (simp add: addNewBot_def dispatch_def botUrl_def)
next
  case Socket_onOpen
  then show ?thesis by (simp add: handleConnectionOnOpen_def initPing_def dispatch_def)
next
  case (Socket_onMessage raw)
  show ?thesis
  proof (cases "messageType B raw")
    case None
    then show ?thesis using Socket_onMessage by (simp add: onMessage_untyped)
  next
    case (Some type)
    then obtain data where
      "\<And>t. handleSocketOnMessage B raw t = routeMessage B type data t"
      by (auto simp: messageType_def handleSocketOnMessage_def split: sum.splits if_splits)
    then show ?thesis
      using Socket_onMessage by (simp add: route_localStorage_update)
  qed
next
  case Socket_onError
  then show ?thesis by (simp add: dispatch_localStorage_update)
next
  case Socket_onClose
  then show ?thesis by (simp add: dispatch_localStorage_update)
next
  case (Socket_readyState rs)
  then show ?thesis by (simp split: option.split)
next
  case (Dispatch_socketUpdateConfig cfg)
  then show ?thesis
    by (simp add: socketUpdateConfig_def handleSocketMessageSend_localStorage_update
        dispatch_localStorage_update)
next
  case (Dispatch_sendTextToLLM msg)
  then show ?thesis
    by (simp add: sendTextToLLM_def Let_def handleSocketMessageSend_localStorage_update
        dispatch_localStorage_update)
next
  case (Interval_fires i)
  then show ?thesis
    by (cases "snd (intervals s ! i)") (simp add: handleSocketMessageSend_localStorage_update)
qed

lemma step_localStorage_frame:
  assumes "k \<noteq> LS_COMMUNICATION_ID_KEY"
  shows "localStorage (step B e s) k = localStorage s k"
proof (cases e)
  case (GetControlPanelConfig_onSuccess data)
  then show ?thesis by (simp add: fetchControlPanelConfig_onSuccess_def Let_def)
next
  case (CreateCommunication_onSuccess data)
  then show ?thesis
    using assms by (simp add: loadOrCreateCommunicationSuccess_def Let_def split: option.split)
next
  case (Socket_onMessage raw)
  show ?thesis
  proof (cases "messageType B raw")
    case None
    then show ?thesis using Socket_onMessage by (simp add: onMessage_untyped)
  next
    case (Some type)
    then obtain data where r: "handleSocketOnMessage B raw s = routeMessage B type data s"
      using onMessage_typed by blast
    show ?thesis
    proof (cases "type = JStr INVALID_COMMUNICATION_ID")
      case True
      then show ?thesis
        using Socket_onMessage r assms by (simp add: route_INVALID_COMMUNICATION_ID)
    next
      case False
      then show ?thesis
        using Socket_onMessage r route_other_frame(1) [OF False, of B data s] by simp
    qed
  qed
next
  case (Socket_readyState rs)
  then show ?thesis by (simp split: option.split)
qed (simp_all add: fetchControlPanelConfig_def loadOrCreateCommunicationFailure_def addNewBot_def
      handleConnectionOnOpen_def socketUpdateConfig_def sendTextToLLM_def Let_def)

section \<open>Persistence\<close>

text \<open>
  C6, as amended. Every access to \<open>localStorage\<close> is to the key \<open>communicationId\<close>: no
  event changes the value of another key, and what an event does depends on \<open>localStorage\<close>
  only through the value of that key (two pages that agree on it, and on everything
  outside \<open>localStorage\<close>, are taken to pages that agree outside \<open>localStorage\<close>). The key
  is written with the new id when a communication is created. \<open>loadOrCreateCommunication\<close>
  reads it: a stored id that is not the empty string is reused, the socket is opened for
  it and the create-communication endpoint is not called; when no id is stored, or the
  stored value is the empty string, the endpoint is called and no socket is opened. The
  key is removed on an \<open>INVALID_COMMUNICATION_ID\<close> message.
\<close>

theorem localStorage_single_key:
  "(k \<noteq> LS_COMMUNICATION_ID_KEY \<longrightarrow> localStorage (step B e s) k = localStorage s k)
   \<and> (ls LS_COMMUNICATION_ID_KEY = localStorage s LS_COMMUNICATION_ID_KEY \<longrightarrow>
        (step B e (s\<lparr>localStorage := ls\<rparr>))\<lparr>localStorage := l0\<rparr> = (step B e s)\<lparr>localStorage := l0\<rparr>)
   \<and> localStorage (step B (CreateCommunication_onSuccess (Some d)) s) LS_COMMUNICATION_ID_KEY
       = Some (communication_id d)
   \<and> (localStorage s LS_COMMUNICATION_ID_KEY = Some cid \<and> cid \<noteq> [] \<longrightarrow>
        loadOrCreateCommunication s =
          initAndHandleWebsocket cid (dispatch (setCommunicationId cid)
            (dispatch (setConnectionStatus CONNECTING) (dispatch (setLoading True) s)))
        \<and> createCommunicationCalls (loadOrCreateCommunication s) = createCommunicationCalls s
        \<and> initializeWebSocketCalls (loadOrCreateCommunication s) = initializeWebSocketCalls s @ [cid])
   \<and> (localStorage s LS_COMMUNICATION_ID_KEY = None \<or> localStorage s LS_COMMUNICATION_ID_KEY = Some [] \<longrightarrow>
        createCommunicationCalls (loadOrCreateCommunication s) = Suc (createCommunicationCalls s)
        \<and> initializeWebSocketCalls (loadOrCreateCommunication s) = initializeWebSocketCalls s)
   \<and> (messageType B raw = Some (JStr INVALID_COMMUNICATION_ID) \<longrightarrow>
        localStorage (step B (Socket_onMessage raw) s) LS_COMMUNICATION_ID_KEY = None)"
proof -
  have written: "localStorage (step B (CreateCommunication_onSuccess (Some d)) s) LS_COMMUNICATION_ID_KEY
       = Some (communication_id d)"
    by (simp add: loadOrCreateCommunicationSuccess_def Let_def)
  have reused: "loadOrCreateCommunication s =
          initAndHandleWebsocket cid (dispatch (setCommunicationId cid)
            (dispatch (setConnectionStatus CONNECTING) (dispatch (setLoading True) s)))
        \<and> createCommunicationCalls (loadOrCreateCommunication s) = createCommunicationCalls s
        \<and> initializeWebSocketCalls (loadOrCreateCommunication s) = initializeWebSocketCalls s @ [cid]"
    if "localStorage s LS_COMMUNICATION_ID_KEY = Some cid \<and> cid \<noteq> []"
    using that by (simp add: loadOrCreateCommunication_stored_id)
  have created: "createCommunicationCalls (loadOrCreateCommunication s) = Suc (createCommunicationCalls s)
        \<and> initializeWebSocketCalls (loadOrCreateCommunication s) = initializeWebSocketCalls s"
    if "localStorage s LS_COMMUNICATION_ID_KEY = None \<or> localStorage s LS_COMMUNICATION_ID_KEY = Some []"
    by (simp add: loadOrCreateCommunication_no_stored_id [OF that])
  have removed: "localStorage (step B (Socket_onMessage raw) s) LS_COMMUNICATION_ID_KEY = None"
    if "messageType B raw = Some (JStr INVALID_COMMUNICATION_ID)"
    using onMessage_typed [OF that, of s] by (auto simp: route_INVALID_COMMUNICATION_ID)
  have frame: "k \<noteq> LS_COMMUNICATION_ID_KEY \<longrightarrow> localStorage (step B e s) k = localStorage s k"
    by (simp add: step_localStorage_frame)
  have reads: "ls LS_COMMUNICATION_ID_KEY = localStorage s LS_COMMUNICATION_ID_KEY \<longrightarrow>
        (step B e (s\<lparr>localStorage := ls\<rparr>))\<lparr>localStorage := l0\<rparr> = (step B e s)\<lparr>localStorage := l0\<rparr>"
    by (simp add: step_reads_key)
  show ?thesis
    using frame reads written reused created removed by blast
qed

text \<open>
  The theorem on three pages: creating the communication \<open>abc\<close> on a page that stores a
  \<open>theme\<close> keeps the theme and stores the id; loading with the id \<open>abc\<close> stored opens the
  socket for it and calls no endpoint; loading with nothing stored calls the endpoint.
\<close>

theorem localStorage_single_key_witness:
  "localStorage (step (platform []) (CreateCommunication_onSuccess (Some \<lparr>communication_id = js ''abc''\<rparr>))
      (page0\<lparr>localStorage := [js ''theme'' \<mapsto> js ''dark'']\<rparr>)) (js ''theme'') = Some (js ''dark'')
   \<and> localStorage (step (platform []) (CreateCommunication_onSuccess (Some \<lparr>communication_id = js ''abc''\<rparr>))
      (page0\<lparr>localStorage := [js ''theme'' \<mapsto> js ''dark'']\<rparr>)) LS_COMMUNICATION_ID_KEY = Some (js ''abc'')
   \<and> createCommunicationCalls (loadOrCreateCommunication
      (page0\<lparr>localStorage := [LS_COMMUNICATION_ID_KEY \<mapsto> js ''abc'']\<rparr>)) = 0
   \<and> initializeWebSocketCalls (loadOrCreateCommunication
      (page0\<lparr>localStorage := [LS_COMMUNICATION_ID_KEY \<mapsto> js ''abc'']\<rparr>)) = [js ''abc'']
   \<and> createCommunicationCalls (loadOrCreateCommunication page0) = 1"
proof -
  let ?t = "page0\<lparr>localStorage := [js ''theme'' \<mapsto> js ''dark'']\<rparr>"
  let ?a = "page0\<lparr>localStorage := [LS_COMMUNICATION_ID_KEY \<mapsto> js ''abc'']\<rparr>"
  let ?d = "\<lparr>communication_id = js ''abc''\<rparr>"
  let ?e = "CreateCommunication_onSuccess (Some ?d)"
  have k: "js ''theme'' \<noteq> LS_COMMUNICATION_ID_KEY"
    by (simp add: LS_COMMUNICATION_ID_KEY_def js_eq_iff)
  have a: "localStorage ?a LS_COMMUNICATION_ID_KEY = Some (js ''abc'') \<and> js ''abc'' \<noteq> []"
    by (simp add: js_Nil_iff)
  have n: "localStorage page0 LS_COMMUNICATION_ID_KEY = None \<or> localStorage page0 LS_COMMUNICATION_ID_KEY = Some []"
    by (simp add: page0_def)
  note thm_t = localStorage_single_key
    [where k = "js ''theme''" and B = "platform []" and e = ?e and s = ?t and d = ?d]
  note thm_a = localStorage_single_key [where s = ?a and cid = "js ''abc''"]
  note thm_0 = localStorage_single_key [where s = page0]
  have "localStorage (step (platform []) ?e ?t) (js ''theme'') = localStorage ?t (js ''theme'')"
    using thm_t k by blast
  moreover have "localStorage (step (platform []) ?e ?t) LS_COMMUNICATION_ID_KEY = Some (communication_id ?d)"
    using thm_t by blast
  moreover have "createCommunicationCalls (loadOrCreateCommunication ?a) = createCommunicationCalls ?a
      \<and> initializeWebSocketCalls (loadOrCreateCommunication ?a) = initializeWebSocketCalls ?a @ [js ''abc'']"
    using thm_a a by blast
  moreover have "createCommunicationCalls (loadOrCreateCommunication page0) = Suc (createCommunicationCalls page0)"
    using thm_0 n by blast
  ultimately show ?thesis
    by (simp add: page0_def)
qed

text \<open>
  C6 as the claim states it fails on a page whose stored communication id is the empty
  string: a value is stored under the key, yet \<open>loadOrCreateCommunication\<close> does not
  reuse it: it calls the create-communication endpoint and opens no socket.
\<close>

theorem loadOrCreateCommunication_empty_id_counterexample:
  "localStorage (page0\<lparr>localStorage := [LS_COMMUNICATION_ID_KEY \<mapsto> js '''']\<rparr>) LS_COMMUNICATION_ID_KEY
     = Some (js '''')
   \<and> createCommunicationCalls (page0\<lparr>localStorage := [LS_COMMUNICATION_ID_KEY \<mapsto> js '''']\<rparr>) = 0
   \<and> createCommunicationCalls (loadOrCreateCommunication
        (page0\<lparr>localStorage := [LS_COMMUNICATION_ID_KEY \<mapsto> js '''']\<rparr>)) = 1
   \<and> initializeWebSocketCalls (loadOrCreateCommunication
        (page0\<lparr>localStorage := [LS_COMMUNICATION_ID_KEY \<mapsto> js '''']\<rparr>)) = []"
  by (simp add: loadOrCreateCommunication_def Let_def js_def createCommunication_def page0_def)

end
